theory Spec2Isabelle
  imports Main
begin

section \<open>Objects, ports and errors\<close>

text \<open>
  The configuration scripts build a graph of simulator objects and bind their ports.
  Every constructor call of the scripts yields a new object; an object is identified by
  the number it receives from an allocation counter, so that two instances of one class
  are told apart, as Python does by identity.  A port is named by its object and its
  attribute name; port bindings (\<^verbatim>\<open>a.x = b.y\<close>) are appended to a wiring log.
  A raised exception is a value of type \<open>error\<close>.
\<close>

type_synonym oid = nat

datatype error =
    AssertionError
  | AttributeError
  | KeyError
  | IndexError
  | NameError
  | SystemExit int

datatype port = Port oid string

record world =
  next_oid :: oid
  wiring :: "(port \<times> port) list"

definition new_obj :: "world \<Rightarrow> oid \<times> world" where
  "new_obj w = (next_oid w, w\<lparr>next_oid := Suc (next_oid w)\<rparr>)"

definition bind :: "port \<Rightarrow> port \<Rightarrow> world \<Rightarrow> world" where
  "bind a b w = w\<lparr>wiring := wiring w @ [(a, b)]\<rparr>"

section \<open>Classes selected by the configuration\<close>

text \<open>
  A CPU class is known to the scripts through its name and its two static capability
  declarations \<^verbatim>\<open>memory_mode()\<close> and \<^verbatim>\<open>require_caches()\<close>.  A cache class is known
  by its name.  An entry of \<^verbatim>\<open>cpu_types\<close> is the tuple
  \<^verbatim>\<open>(cpu_class, l1_icache_class, l1_dcache_class, l2_Cache_class)\<close>, where a cache
  class may be \<^verbatim>\<open>None\<close>.
\<close>

record cpu_class =
  cls_name :: string
  memory_mode :: string
  require_caches :: bool

type_synonym cache_class = string

type_synonym cpu_config =
  "cpu_class \<times> cache_class option \<times> cache_class option \<times> cache_class option"

record cache =
  cache_oid :: oid
  cache_cls :: cache_class

record process =
  pid :: int
  cwd :: string
  cmd :: "string list"
  executable :: string
  gid :: int

record voltage_dom =
  vd_oid :: oid
  voltage :: string

record clock_dom =
  cd_oid :: oid
  clock :: string
  cd_voltage_domain :: oid

record cpu =
  cpu_oid :: oid
  cpu_cls :: cpu_class
  cpu_id :: int
  cpu_clk_domain :: oid
  threads_created :: bool
  interrupt_controller_created :: bool
  socket_id :: "int option"
  icache :: "cache option"
  dcache :: "cache option"
  branchPred :: "string option"
  max_insts_all_threads :: "int option"
  simpoint_probe :: "int option"
  workload :: "process option"

section \<open>The system's bookkeeping (starter\_se.py, SimpleSeSystem)\<close>

text \<open>
  \<^verbatim>\<open>_clusters\<close> holds references to the registered cluster objects and
  \<^verbatim>\<open>_num_cpus\<close> the running total of cores.
\<close>

record cluster_book =
  clusters :: "oid list"
  num_cpus :: int

definition numCpuClusters :: "'a cluster_book_scheme \<Rightarrow> int" where
  "numCpuClusters s = int (length (clusters s))"

definition numCpus :: "'a cluster_book_scheme \<Rightarrow> int" where
  "numCpus s = num_cpus s"

text \<open>
  \<^verbatim>\<open>
  def addCpuCluster(self, cpu_cluster, num_cpus):
      assert cpu_cluster not in self._clusters
      assert num_cpus > 0
      self._clusters.append(cpu_cluster)
      self._num_cpus += num_cpus
  \<close>
\<close>

definition addCpuCluster ::
  "'a cluster_book_scheme \<Rightarrow> oid \<Rightarrow> int \<Rightarrow> error + 'a cluster_book_scheme" where
  "addCpuCluster s cpu_cluster n =
     (if cpu_cluster \<in> set (clusters s) then Inl AssertionError
      else if \<not> (n > 0) then Inl AssertionError
      else Inr (s\<lparr>clusters := clusters s @ [cpu_cluster], num_cpus := num_cpus s + n\<rparr>))"

section \<open>The cluster composer (devices.py, CpuClusterRiscV)\<close>

record xbar =
  xbar_oid :: oid
  width :: int
  xbar_clk_domain :: oid

record cluster =
  cluster_oid :: oid
  cpu_type :: cpu_class
  l1i_type :: "cache_class option"
  l1d_type :: "cache_class option"
  l2_type :: "cache_class option"
  voltage_domain :: voltage_dom
  clk_domain :: clock_dom
  cpus :: "cpu list"
  toL2Bus :: "xbar option"
  l2 :: "cache option"

text \<open>
  One element of the list comprehension
  \<^verbatim>\<open>self._cpu_type(cpu_id=system.numCpus() + idx, clk_domain=self.clk_domain)\<close>.
\<close>

definition new_cpu :: "cpu_class \<Rightarrow> int \<Rightarrow> oid \<Rightarrow> world \<Rightarrow> cpu \<times> world" where
  "new_cpu cls ident clk w =
     (let (p, w') = new_obj w in
      (\<lparr>cpu_oid = p, cpu_cls = cls, cpu_id = ident, cpu_clk_domain = clk,
        threads_created = False, interrupt_controller_created = False,
        socket_id = None, icache = None, dcache = None, branchPred = None,
        max_insts_all_threads = None, simpoint_probe = None, workload = None\<rparr>, w'))"

text \<open>The comprehension over \<^verbatim>\<open>range(num_cpus)\<close>, given as the list of its indices.\<close>

fun make_cpus :: "cpu_class \<Rightarrow> int \<Rightarrow> oid \<Rightarrow> int list \<Rightarrow> world \<Rightarrow> cpu list \<times> world" where
  "make_cpus cls base clk [] w = ([], w)"
| "make_cpus cls base clk (idx # idxs) w =
     (let (c, w1) = new_cpu cls (base + idx) clk w;
          (cs, w2) = make_cpus cls base clk idxs w1
      in (c # cs, w2))"

text \<open>Python's \<^verbatim>\<open>range(n)\<close>: the indices \<open>0, \<dots>, n - 1\<close>, none when \<open>n \<le> 0\<close>.\<close>

definition range :: "int \<Rightarrow> int list" where
  "range n = [0 .. n - 1]"

text \<open>
  The body of the loop \<^verbatim>\<open>for cpu in self.cpus\<close> of the constructor:
  \<^verbatim>\<open>createThreads()\<close>, \<^verbatim>\<open>createInterruptController()\<close> and the socket id.
\<close>

definition init_cpu :: "int \<Rightarrow> cpu \<Rightarrow> cpu" where
  "init_cpu sock c =
     c\<lparr>threads_created := True, interrupt_controller_created := True,
       socket_id := Some sock\<rparr>"

text \<open>
  \<^verbatim>\<open>
  def __init__(self, system, num_cpus, cpu_clock, cpu_voltage,
               cpu_type, l1i_type, l1d_type, l2_type):
      ...
      assert num_cpus > 0
      self.voltage_domain = VoltageDomain(voltage=cpu_voltage)
      self.clk_domain = SrcClockDomain(clock=cpu_clock,
                                       voltage_domain=self.voltage_domain)
      self.cpus = [ self._cpu_type(cpu_id=system.numCpus() + idx,
                                   clk_domain=self.clk_domain)
                    for idx in range(num_cpus) ]
      for cpu in self.cpus:
          cpu.createThreads()
          cpu.createInterruptController()
          cpu.socket_id = system.numCpuClusters()
      system.addCpuCluster(self, num_cpus)
  \<close>
  The constructor returns the new world, the updated system and the cluster.
\<close>

definition CpuClusterRiscV_init ::
  "world \<Rightarrow> 'a cluster_book_scheme \<Rightarrow> int \<Rightarrow> string \<Rightarrow> string \<Rightarrow> cpu_config \<Rightarrow>
     error + (world \<times> 'a cluster_book_scheme \<times> cluster)" where
  "CpuClusterRiscV_init w system n cpu_clock cpu_voltage cfg =
     (case cfg of (ct, l1i, l1d, l2t) \<Rightarrow>
      let (self, w0) = new_obj w in
      if \<not> (n > 0) then Inl AssertionError
      else
        let (vd, w1) = new_obj w0;
            (cd, w2) = new_obj w1;
            (cs, w3) = make_cpus ct (numCpus system) cd (range n) w2;
            cs' = map (init_cpu (numCpuClusters system)) cs
        in case addCpuCluster system self n of
             Inl e \<Rightarrow> Inl e
           | Inr system' \<Rightarrow>
               Inr (w3, system',
                    \<lparr>cluster_oid = self, cpu_type = ct, l1i_type = l1i, l1d_type = l1d,
                     l2_type = l2t,
                     voltage_domain = \<lparr>vd_oid = vd, voltage = cpu_voltage\<rparr>,
                     clk_domain = \<lparr>cd_oid = cd, clock = cpu_clock, cd_voltage_domain = vd\<rparr>,
                     cpus = cs', toL2Bus = None, l2 = None\<rparr>))"

text \<open>
  \<^verbatim>\<open>None if self._l1i_type is None else self._l1i_type()\<close>: an instance of the
  configured class, or \<^verbatim>\<open>None\<close>.
\<close>

definition new_cache :: "cache_class option \<Rightarrow> world \<Rightarrow> cache option \<times> world" where
  "new_cache ty w =
     (case ty of
        None \<Rightarrow> (None, w)
      | Some cls \<Rightarrow> (let (p, w') = new_obj w in (Some \<lparr>cache_oid = p, cache_cls = cls\<rparr>, w')))"

text \<open>
  Modelled from the spec: \<^verbatim>\<open>BaseCPU.addPrivateSplitL1Caches\<close> is a method of the CPU
  base class, which is not among the sources; it attaches the two given instances to the
  core as its instruction and data cache.
\<close>

definition addPrivateSplitL1Caches :: "cpu \<Rightarrow> cache option \<Rightarrow> cache option \<Rightarrow> cpu" where
  "addPrivateSplitL1Caches c ic dc = c\<lparr>icache := ic, dcache := dc\<rparr>"

text \<open>
  Modelled from the spec: \<^verbatim>\<open>BaseCPU.connectCachedPorts\<close> is a method of the CPU base
  class, which is not among the sources; it connects the core's cached port to the given
  port.  One call is one connection of the core.
\<close>

definition connectCachedPorts :: "cpu \<Rightarrow> port \<Rightarrow> world \<Rightarrow> world" where
  "connectCachedPorts c p w = bind (Port (cpu_oid c) ''cached_ports'') p w"

text \<open>
  \<^verbatim>\<open>
  def addL1(self):
      for cpu in self.cpus:
          l1i = None if self._l1i_type is None else self._l1i_type()
          l1d = None if self._l1d_type is None else self._l1d_type()
          cpu.addPrivateSplitL1Caches(l1i, l1d)
  \<close>
\<close>

fun addL1_loop ::
  "cache_class option \<Rightarrow> cache_class option \<Rightarrow> cpu list \<Rightarrow> world \<Rightarrow> cpu list \<times> world" where
  "addL1_loop ti td [] w = ([], w)"
| "addL1_loop ti td (c # cs) w =
     (let (l1i, w1) = new_cache ti w;
          (l1d, w2) = new_cache td w1;
          c' = addPrivateSplitL1Caches c l1i l1d;
          (cs', w3) = addL1_loop ti td cs w2
      in (c' # cs', w3))"

definition addL1 :: "world \<Rightarrow> cluster \<Rightarrow> world \<times> cluster" where
  "addL1 w self =
     (let (cs, w') = addL1_loop (l1i_type self) (l1d_type self) (cpus self) w
      in (w', self\<lparr>cpus := cs\<rparr>))"

text \<open>
  \<^verbatim>\<open>
  def addL2(self, clk_domain):
      if self._l2_type is None:
          return
      self.toL2Bus = L2XBar(width=64, clk_domain=clk_domain)
      self.l2 = self._l2_type()
      for cpu in self.cpus:
          cpu.connectCachedPorts(self.toL2Bus.cpu_side_ports)
      self.toL2Bus.mem_side_ports = self.l2.cpu_side
  \<close>
\<close>

definition addL2 :: "world \<Rightarrow> cluster \<Rightarrow> oid \<Rightarrow> world \<times> cluster" where
  "addL2 w self clk =
     (case l2_type self of
        None \<Rightarrow> (w, self)
      | Some cls \<Rightarrow>
          (let (b, w1) = new_obj w;
               (p, w2) = new_obj w1;
               w3 = fold (\<lambda>c. connectCachedPorts c (Port b ''cpu_side_ports'')) (cpus self) w2;
               w4 = bind (Port b ''mem_side_ports'') (Port p ''cpu_side'') w3
           in (w4, self\<lparr>toL2Bus := Some \<lparr>xbar_oid = b, width = 64, xbar_clk_domain = clk\<rparr>,
                        l2 := Some \<lparr>cache_oid = p, cache_cls = cls\<rparr>\<rparr>)))"

text \<open>
  \<^verbatim>\<open>
  def connectMemSide(self, bus):
      try:
          self.l2.mem_side = bus.cpu_side_ports
      except AttributeError:
          for cpu in self.cpus:
              cpu.connectCachedPorts(bus.cpu_side_ports)
  \<close>
  The attribute \<^verbatim>\<open>l2\<close> exists exactly when \<^verbatim>\<open>addL2\<close> has set it; reading it
  otherwise raises the \<^verbatim>\<open>AttributeError\<close> that the handler catches.
\<close>

definition connectMemSide :: "world \<Rightarrow> cluster \<Rightarrow> oid \<Rightarrow> world" where
  "connectMemSide w self bus =
     (case l2 self of
        Some c \<Rightarrow> bind (Port (cache_oid c) ''mem_side'') (Port bus ''cpu_side_ports'') w
      | None \<Rightarrow> fold (\<lambda>c. connectCachedPorts c (Port bus ''cpu_side_ports'')) (cpus self) w)"

definition requireCaches :: "cluster \<Rightarrow> bool" where
  "requireCaches self = require_caches (cpu_type self)"

definition memoryMode :: "cluster \<Rightarrow> string" where
  "memoryMode self = memory_mode (cpu_type self)"

section \<open>The cross-domain bridge assembler (devices.py, FastmodelCluster)\<close>

text \<open>
  The interrupt controller \<^verbatim>\<open>system.realview.gic\<close>: what \<^verbatim>\<open>get_redist_bases()\<close> and
  \<^verbatim>\<open>get_addr_ranges()\<close> return, the version flag \<^verbatim>\<open>sc_gic.has_gicv4_1\<close>, and the two
  tables the assembler writes.  An item \<^verbatim>\<open>'0.0.%d.0' % i\<close> of the affinity table is
  kept as the index \<open>i\<close>, an item \<^verbatim>\<open>'0.0.%d.0=%#x' % (i, a)\<close> of the redistributor
  table as the pair \<open>(i, a)\<close>; the tables are the lists that \<^verbatim>\<open>','.join\<close> serialises.
\<close>

record gic =
  gic_oid :: oid
  redist_bases :: "int list"
  gic_addr_ranges :: "(int \<times> int) list"
  has_gicv4_1 :: bool
  cpu_affinities :: "int list"
  reg_base_per_redistributor :: "(int \<times> int) list"

record bridge =
  bridge_oid :: oid
  bridge_cls :: string
  addr_ranges :: "(int \<times> int) list"

text \<open>
  The sub-assembly \<^verbatim>\<open>system.gic_hub\<close>: a \<^verbatim>\<open>SubSystem\<close> object and the bridges
  assigned to it, by attribute name.
\<close>

record gic_hub =
  hub_oid :: oid
  children :: "(string \<times> bridge) list"

text \<open>
  The class of the system a \<^verbatim>\<open>FastmodelCluster\<close> is built on is not among the
  sources.  The constructor reads its interrupt controller \<^verbatim>\<open>realview.gic\<close>, its I/O
  bus and its memory bus, assigns its attribute \<^verbatim>\<open>gic_hub\<close>, and calls its method
  \<^verbatim>\<open>addCpuCluster\<close>.  The method is a parameter of the constructor's model: a
  registration takes the bookkeeping of the system, the cluster object and the core
  count, and returns the new bookkeeping or raises.
\<close>

type_synonym registration = "cluster_book \<Rightarrow> oid \<Rightarrow> int \<Rightarrow> error + cluster_book"

text \<open>
  Modelled from the spec: the method \<^verbatim>\<open>addCpuCluster\<close> of the system class that hosts
  a \<^verbatim>\<open>FastmodelCluster\<close> is not among the sources.  Registration appends the cluster
  to the system's list of clusters and adds the core count to its tally.
\<close>

definition register_cluster :: registration where
  "register_cluster s c n = Inr (s\<lparr>clusters := clusters s @ [c], num_cpus := num_cpus s + n\<rparr>)"

record platform = cluster_book +
  realview_gic :: gic
  iobus :: oid
  membus :: oid
  hub :: "gic_hub option"

datatype fm_class =
    FastModelCortexA76x1
  | FastModelCortexA76x2
  | FastModelCortexA76x3
  | FastModelCortexA76x4

text \<open>
  Modelled from the spec: the classes \<^verbatim>\<open>FastModelCortexA76xN\<close> of the external model are
  not among the sources; they are its provided core-count variants, the variant
  \<^verbatim>\<open>xN\<close> having \<open>N\<close> cores.
\<close>

fun cores_of :: "fm_class \<Rightarrow> nat" where
  "cores_of FastModelCortexA76x1 = 1"
| "cores_of FastModelCortexA76x2 = 2"
| "cores_of FastModelCortexA76x3 = 3"
| "cores_of FastModelCortexA76x4 = 4"

record fm_core =
  core_oid :: oid
  semihosting_enable :: bool
  RVBARADDR :: int
  redistributor :: "oid option"
  core_threads_created :: bool
  core_interrupt_controller_created :: bool

record fm_cpu =
  fm_oid :: oid
  fm_cls :: fm_class
  GICDISABLE :: bool
  cores :: "fm_core list"

record fm_cluster =
  fm_cluster_oid :: oid
  fm_voltage_domain :: voltage_dom
  fm_clk_domain :: clock_dom
  fm_cpus :: "fm_cpu list"

text \<open>
  Python's list subscript \<^verbatim>\<open>xs[i]\<close>: an index below zero counts from the end of the
  list, an index outside the list raises \<^verbatim>\<open>IndexError\<close>.
\<close>

definition list_index :: "nat \<Rightarrow> int \<Rightarrow> error + nat" where
  "list_index len i =
     (if 0 \<le> i \<and> i < int len then Inr (nat i)
      else if i < 0 \<and> - int len \<le> i then Inr (nat (int len + i))
      else Inl IndexError)"

definition subscript :: "'a list \<Rightarrow> int \<Rightarrow> error + 'a" where
  "subscript xs i =
     (case list_index (length xs) i of Inl e \<Rightarrow> Inl e | Inr k \<Rightarrow> Inr (xs ! k))"

definition CpuClasses :: "fm_class list" where
  "CpuClasses = [FastModelCortexA76x1, FastModelCortexA76x2,
                 FastModelCortexA76x3, FastModelCortexA76x4]"

text \<open>
  \<^verbatim>\<open>
  redist_frame_size = 0x40000 if gic.sc_gic.has_gicv4_1 else 0x20000
  gic.sc_gic.reg_base_per_redistributor = ','.join([
      '0.0.%d.0=%#x' % (i, redist_base + redist_frame_size * i)
      for i in range(num_cpus)
  ])
  \<close>
\<close>

definition redist_frame_size :: "bool \<Rightarrow> int" where
  "redist_frame_size v41 = (if v41 then 0x40000 else 0x20000)"

definition redist_table :: "int \<Rightarrow> bool \<Rightarrow> int \<Rightarrow> (int \<times> int) list" where
  "redist_table redist_base v41 n =
     map (\<lambda>i. (i, redist_base + redist_frame_size v41 * i)) (range n)"

text \<open>The external core model \<^verbatim>\<open>CpuClass(GICDISABLE=False)\<close> with its cores.\<close>

fun new_cores :: "nat \<Rightarrow> world \<Rightarrow> fm_core list \<times> world" where
  "new_cores 0 w = ([], w)"
| "new_cores (Suc k) w =
     (let (p, w1) = new_obj w;
          (cs, w2) = new_cores k w1
      in (\<lparr>core_oid = p, semihosting_enable = True, RVBARADDR = 0, redistributor = None,
           core_threads_created = False, core_interrupt_controller_created = False\<rparr> # cs, w2))"

definition new_fm_cpu :: "fm_class \<Rightarrow> world \<Rightarrow> fm_cpu \<times> world" where
  "new_fm_cpu cls w =
     (let (p, w1) = new_obj w;
          (cs, w2) = new_cores (cores_of cls) w1
      in (\<lparr>fm_oid = p, fm_cls = cls, GICDISABLE = False, cores = cs\<rparr>, w2))"

text \<open>The body of the loop \<^verbatim>\<open>for core in cpu.cores\<close>.\<close>

definition setup_core :: "oid \<Rightarrow> fm_core \<Rightarrow> fm_core" where
  "setup_core g c =
     c\<lparr>semihosting_enable := False, RVBARADDR := 0x10, redistributor := Some g,
       core_threads_created := True, core_interrupt_controller_created := True\<rparr>"

text \<open>
  \<^verbatim>\<open>
  def __init__(self, system, num_cpus, cpu_clock, cpu_voltage="1.0V"):
      gic = system.realview.gic
      gic.sc_gic.cpu_affinities = ','.join(
          [ '0.0.%d.0' % i for i in range(num_cpus) ])
      redist_base = gic.get_redist_bases()[0]
      ... (the redistributor table, above)
      gic_a2t = AmbaToTlmBridge64(amba=gic.amba_m)
      gic_t2g = TlmToGem5Bridge64(tlm=gic_a2t.tlm,
                                  gem5=system.iobus.cpu_side_ports)
      gic_g2t = Gem5ToTlmBridge64(gem5=system.membus.mem_side_ports)
      gic_g2t.addr_ranges = gic.get_addr_ranges()
      gic_t2a = AmbaFromTlmBridge64(tlm=gic_g2t.tlm)
      gic.amba_s = gic_t2a.amba
      system.gic_hub = SubSystem()
      system.gic_hub.gic_a2t = gic_a2t
      ... (gic_t2g, gic_g2t, gic_t2a)
      self.voltage_domain = VoltageDomain(voltage=cpu_voltage)
      self.clk_domain = SrcClockDomain(clock=cpu_clock,
                                       voltage_domain=self.voltage_domain)
      assert num_cpus <= 4
      CpuClasses = [FastModelCortexA76x1, FastModelCortexA76x2,
                    FastModelCortexA76x3, FastModelCortexA76x4]
      CpuClass = CpuClasses[num_cpus - 1]
      cpu = CpuClass(GICDISABLE=False)
      for core in cpu.cores:
          ...
      self.cpus = [ cpu ]
      a2t = AmbaToTlmBridge64(amba=cpu.amba)
      t2g = TlmToGem5Bridge64(tlm=a2t.tlm, gem5=system.membus.cpu_side_ports)
      system.gic_hub.a2t = a2t
      system.gic_hub.t2g = t2g
      system.addCpuCluster(self, num_cpus)
  \<close>
  The first part, \<open>setup_gic\<close>, configures the interrupt controller, builds the four
  bridges of the controller and groups them under \<^verbatim>\<open>system.gic_hub\<close>.  An exception
  leaves the mutations of the system in place, so a failure carries the world and the
  system as they are when it is raised.
\<close>

definition setup_gic ::
  "world \<Rightarrow> platform \<Rightarrow> int \<Rightarrow> (error \<times> world \<times> platform) + (world \<times> platform)" where
  "setup_gic w system n =
     (let g0 = realview_gic system;
          g1 = g0\<lparr>cpu_affinities := range n\<rparr>;
          s1 = system\<lparr>realview_gic := g1\<rparr>
      in case subscript (redist_bases g1) 0 of
           Inl e \<Rightarrow> Inl (e, w, s1)
         | Inr redist_base \<Rightarrow>
             (let g2 = g1\<lparr>reg_base_per_redistributor :=
                          redist_table redist_base (has_gicv4_1 g1) n\<rparr>;
                  (a2t, w1) = new_obj w;
                  w2 = bind (Port a2t ''amba'') (Port (gic_oid g2) ''amba_m'') w1;
                  (t2g, w3) = new_obj w2;
                  w4 = bind (Port t2g ''tlm'') (Port a2t ''tlm'') w3;
                  w5 = bind (Port t2g ''gem5'') (Port (iobus system) ''cpu_side_ports'') w4;
                  (g2t, w6) = new_obj w5;
                  w7 = bind (Port g2t ''gem5'') (Port (membus system) ''mem_side_ports'') w6;
                  (t2a, w8) = new_obj w7;
                  w9 = bind (Port t2a ''tlm'') (Port g2t ''tlm'') w8;
                  w10 = bind (Port (gic_oid g2) ''amba_s'') (Port t2a ''amba'') w9;
                  (hb, w11) = new_obj w10;
                  h = [(''gic_a2t'', \<lparr>bridge_oid = a2t, bridge_cls = ''AmbaToTlmBridge64'',
                                      addr_ranges = []\<rparr>),
                       (''gic_t2g'', \<lparr>bridge_oid = t2g, bridge_cls = ''TlmToGem5Bridge64'',
                                      addr_ranges = []\<rparr>),
                       (''gic_g2t'', \<lparr>bridge_oid = g2t, bridge_cls = ''Gem5ToTlmBridge64'',
                                      addr_ranges = gic_addr_ranges g2\<rparr>),
                       (''gic_t2a'', \<lparr>bridge_oid = t2a, bridge_cls = ''AmbaFromTlmBridge64'',
                                      addr_ranges = []\<rparr>)]
              in Inr (w11, s1\<lparr>realview_gic := g2,
                               hub := Some \<lparr>hub_oid = hb, children = h\<rparr>\<rparr>)))"

definition FastmodelCluster_init ::
  "registration \<Rightarrow> world \<Rightarrow> platform \<Rightarrow> int \<Rightarrow> string \<Rightarrow> string \<Rightarrow>
     (error \<times> world \<times> platform) + (world \<times> platform \<times> fm_cluster)" where
  "FastmodelCluster_init addCpuCluster_of_system w system n cpu_clock cpu_voltage =
     (let (self, w0) = new_obj w in
      case setup_gic w0 system n of
        Inl f \<Rightarrow> Inl f
      | Inr (w1, s1) \<Rightarrow>
          (let (vd, w2) = new_obj w1;
               (cd, w3) = new_obj w2
           in if \<not> (n \<le> 4) then Inl (AssertionError, w3, s1)
              else case subscript CpuClasses (n - 1) of
                Inl e \<Rightarrow> Inl (e, w3, s1)
              | Inr CpuClass \<Rightarrow>
                  (let (cpu0, w4) = new_fm_cpu CpuClass w3;
                       cpu1 = cpu0\<lparr>cores := map (setup_core (gic_oid (realview_gic s1)))
                                                (cores cpu0)\<rparr>;
                       (a2t, w5) = new_obj w4;
                       w6 = bind (Port a2t ''amba'') (Port (fm_oid cpu1) ''amba'') w5;
                       (t2g, w7) = new_obj w6;
                       w8 = bind (Port t2g ''tlm'') (Port a2t ''tlm'') w7;
                       w9 = bind (Port t2g ''gem5'') (Port (membus s1) ''cpu_side_ports'') w8
                   in case hub s1 of
                        None \<Rightarrow> Inl (AttributeError, w9, s1)
                      | Some h0 \<Rightarrow>
                   (let h = h0\<lparr>children := children h0 @
                              [(''a2t'', \<lparr>bridge_oid = a2t, bridge_cls = ''AmbaToTlmBridge64'',
                                          addr_ranges = []\<rparr>),
                               (''t2g'', \<lparr>bridge_oid = t2g, bridge_cls = ''TlmToGem5Bridge64'',
                                          addr_ranges = []\<rparr>)]\<rparr>;
                        s2 = s1\<lparr>hub := Some h\<rparr>
                    in case addCpuCluster_of_system
                              \<lparr>clusters = clusters s2, num_cpus = num_cpus s2\<rparr> self n of
                         Inl e \<Rightarrow> Inl (e, w9, s2)
                       | Inr book \<Rightarrow>
                           Inr (w9, s2\<lparr>clusters := clusters book, num_cpus := num_cpus book\<rparr>,
                                \<lparr>fm_cluster_oid = self,
                                 fm_voltage_domain = \<lparr>vd_oid = vd, voltage = cpu_voltage\<rparr>,
                                 fm_clk_domain = \<lparr>cd_oid = cd, clock = cpu_clock,
                                                  cd_voltage_domain = vd\<rparr>,
                                 fm_cpus = [cpu1]\<rparr>)))))"

text \<open>The system as a construction leaves it, raised or returned.\<close>

definition system_after ::
  "(error \<times> world \<times> platform) + (world \<times> platform \<times> fm_cluster) \<Rightarrow> platform" where
  "system_after r = (case r of Inl (e, w, s) \<Rightarrow> s | Inr (w, s, c) \<Rightarrow> s)"

section \<open>The top-level assembler (starter\_se.py)\<close>

text \<open>The parsed command line, as far as the assembler reads it.\<close>

record args =
  commands_to_run :: "string list"
  cpu :: string
  cpu_freq :: string
  num_cores :: int
  mem_size :: string
  l1d_size :: string
  l1i_size :: string
  l2_size :: string
  maxinsts :: int
  simpoint_profile :: bool
  simpoint_interval :: int
  random_arg :: int

text \<open>
  The module-level state the assembler reads and overwrites: the dictionary
  \<^verbatim>\<open>cpu_types\<close> and the class attributes \<^verbatim>\<open>devices.L1D.size\<close>,
  \<^verbatim>\<open>devices.L1I.size\<close> and \<^verbatim>\<open>devices.L2.size\<close>.
\<close>

record globals =
  cpu_types :: "string \<rightharpoonup> cpu_config"
  L1D_size :: string
  L1I_size :: string
  L2_size :: string

text \<open>
  What the assembler calls outside the sources: \<^verbatim>\<open>shlex.split\<close>, \<^verbatim>\<open>os.getcwd\<close>,
  \<^verbatim>\<open>os.getgid\<close>, \<^verbatim>\<open>generate_configs\<close> of the module \<^verbatim>\<open>cfg_generater\<close>, which
  returns new arguments and a branch predictor class, and the memory set-up
  \<^verbatim>\<open>MemConfig.config_mem(args, system); system.connect()\<close>, which either raises or
  returns (the class \<^verbatim>\<open>SimpleSeSystem\<close> defines no method \<^verbatim>\<open>connect\<close> itself; its base
  class \<^verbatim>\<open>System\<close> is not among the sources).  They are parameters of the model.
\<close>

record env =
  shlex_split :: "string \<Rightarrow> string list"
  getcwd :: string
  getgid :: int
  generate_configs :: "args \<Rightarrow> int \<Rightarrow> args \<times> string"
  memory_setup :: "args \<Rightarrow> error option"

record se_system = cluster_book +
  sys_oid :: oid
  sys_voltage_domain :: voltage_dom
  sys_clk_domain :: clock_dom
  se_membus :: oid
  cpu_cluster :: cluster
  mem_mode :: string
  mem_ranges :: "(int \<times> string) list"
  se_workload :: "string option"

text \<open>
  The loops \<^verbatim>\<open>for i in range(args.num_cores): self.cpu_cluster.cpus[i].x = v\<close>: the
  core at each index is updated in turn; an index outside the list raises.
\<close>

fun update_cpus :: "(cpu \<Rightarrow> cpu) \<Rightarrow> int list \<Rightarrow> cpu list \<Rightarrow> error + cpu list" where
  "update_cpus f [] cs = Inr cs"
| "update_cpus f (i # idxs) cs =
     (case list_index (length cs) i of
        Inl e \<Rightarrow> Inl e
      | Inr k \<Rightarrow> update_cpus f idxs (cs[k := f (cs ! k)]))"

text \<open>
  \<^verbatim>\<open>
  def __init__(self, args, **kwargs):
      self._clusters = []
      self._num_cpus = 0
      self.voltage_domain = VoltageDomain(voltage="3.3V")
      self.clk_domain = SrcClockDomain(clock="1GHz",
                                       voltage_domain=self.voltage_domain)
      self.membus = SystemXBar()
      self.system_port = self.membus.cpu_side_ports
      self.cpu_cluster = devices.CpuCluster(self, args.num_cores,
                                            args.cpu_freq, "1.2V",
                                            *cpu_types[args.cpu])
      if self.cpu_cluster.memoryMode() == "timing":
          self.cpu_cluster.addL1()
          self.cpu_cluster.addL2(self.cpu_cluster.clk_domain)
      elif args.cpu == "ac":
          self.cpu_cluster.addL1()
          self.cpu_cluster.addL2(self.cpu_cluster.clk_domain)
          for i in range(args.num_cores):
              self.cpu_cluster.cpus[i].branchPred = O3_ARM_v7a_BP()
      self.cpu_cluster.connectMemSide(self.membus)
      if args.maxinsts:
          for i in range(args.num_cores):
              self.cpu_cluster.cpus[i].max_insts_all_threads = args.maxinsts
      if args.simpoint_profile:
          for i in range(args.num_cores):
              self.cpu_cluster.cpus[i].addSimPointProbe(args.simpoint_interval)
      self.mem_mode = self.cpu_cluster.memoryMode()
  \<close>
  Modelled from the spec: the module \<^verbatim>\<open>devices\<close> beside starter\_se.py, with its class
  \<^verbatim>\<open>CpuCluster\<close>, is not among the sources.  The class is taken to be the spec's
  Cluster Composer, which the sources have as \<^verbatim>\<open>CpuClusterRiscV\<close> of riscv/devices.py:
  the constructor, \<^verbatim>\<open>addL1\<close>, \<^verbatim>\<open>addL2\<close>, \<^verbatim>\<open>connectMemSide\<close> and \<^verbatim>\<open>memoryMode\<close> are
  the functions of that class.  The branch predictor, like every class, is kept by name.
\<close>

definition wire_caches ::
  "world \<Rightarrow> cluster \<Rightarrow> args \<Rightarrow> error + (world \<times> cluster)" where
  "wire_caches w cl a =
     (if memoryMode cl = ''timing'' then
        (let (w1, c1) = addL1 w cl;
             (w2, c2) = addL2 w1 c1 (cd_oid (clk_domain c1))
         in Inr (w2, c2))
      else if cpu a = ''ac'' then
        (let (w1, c1) = addL1 w cl;
             (w2, c2) = addL2 w1 c1 (cd_oid (clk_domain c1))
         in case update_cpus (\<lambda>c. c\<lparr>branchPred := Some ''O3_ARM_v7a_BP''\<rparr>)
                   (range (num_cores a)) (cpus c2) of
              Inl e \<Rightarrow> Inl e
            | Inr cs \<Rightarrow> Inr (w2, c2\<lparr>cpus := cs\<rparr>))
      else Inr (w, cl))"

definition apply_limits :: "cluster \<Rightarrow> args \<Rightarrow> error + cluster" where
  "apply_limits cl a =
     (case (if maxinsts a \<noteq> 0
            then update_cpus (\<lambda>c. c\<lparr>max_insts_all_threads := Some (maxinsts a)\<rparr>)
                   (range (num_cores a)) (cpus cl)
            else Inr (cpus cl)) of
        Inl e \<Rightarrow> Inl e
      | Inr cs1 \<Rightarrow>
          (case (if simpoint_profile a
                 then update_cpus (\<lambda>c. c\<lparr>simpoint_probe := Some (simpoint_interval a)\<rparr>)
                        (range (num_cores a)) cs1
                 else Inr cs1) of
             Inl e \<Rightarrow> Inl e
           | Inr cs2 \<Rightarrow> Inr (cl\<lparr>cpus := cs2\<rparr>)))"

definition SimpleSeSystem_init ::
  "globals \<Rightarrow> world \<Rightarrow> args \<Rightarrow> error + (world \<times> se_system)" where
  "SimpleSeSystem_init g w a =
     (let (self, w0) = new_obj w;
          book = \<lparr>clusters = [], num_cpus = 0\<rparr>;
          (vd, w1) = new_obj w0;
          (cd, w2) = new_obj w1;
          (mb, w3) = new_obj w2;
          w4 = bind (Port self ''system_port'') (Port mb ''cpu_side_ports'') w3
      in case cpu_types g (cpu a) of
           None \<Rightarrow> Inl KeyError
         | Some cfg \<Rightarrow>
        (case CpuClusterRiscV_init w4 book (num_cores a) (cpu_freq a) ''1.2V'' cfg of
           Inl e \<Rightarrow> Inl e
         | Inr (w5, book', cl) \<Rightarrow>
        (case wire_caches w5 cl a of
           Inl e \<Rightarrow> Inl e
         | Inr (w6, cl1) \<Rightarrow>
        (let w7 = connectMemSide w6 cl1 mb
         in case apply_limits cl1 a of
           Inl e \<Rightarrow> Inl e
         | Inr cl2 \<Rightarrow>
             Inr (w7,
                  \<lparr>clusters = clusters book', num_cpus = num_cpus book',
                   sys_oid = self,
                   sys_voltage_domain = \<lparr>vd_oid = vd, voltage = ''3.3V''\<rparr>,
                   sys_clk_domain = \<lparr>cd_oid = cd, clock = ''1GHz'', cd_voltage_domain = vd\<rparr>,
                   se_membus = mb, cpu_cluster = cl2, mem_mode = memoryMode cl2,
                   mem_ranges = [], se_workload = None\<rparr>)))))"

text \<open>
  \<^verbatim>\<open>
  def get_processes(cmd):
      cwd = os.getcwd()
      multiprocesses = []
      for idx, c in enumerate(cmd):
          argv = shlex.split(c)
          process = Process(pid=100 + idx, cwd=cwd, cmd=argv, executable=argv[0])
          process.gid = os.getgid()
          multiprocesses.append(process)
      return multiprocesses
  \<close>
\<close>

fun get_processes_from :: "env \<Rightarrow> int \<Rightarrow> string list \<Rightarrow> error + process list" where
  "get_processes_from e idx [] = Inr []"
| "get_processes_from e idx (c # cs) =
     (let argv = shlex_split e c
      in case subscript argv 0 of
           Inl x \<Rightarrow> Inl x
         | Inr exe \<Rightarrow>
             (case get_processes_from e (idx + 1) cs of
                Inl x \<Rightarrow> Inl x
              | Inr ps \<Rightarrow>
                  Inr (\<lparr>pid = 100 + idx, cwd = getcwd e, cmd = argv, executable = exe,
                        gid = getgid e\<rparr> # ps)))"

definition get_processes :: "env \<Rightarrow> string list \<Rightarrow> error + process list" where
  "get_processes e cmds = get_processes_from e 0 cmds"

text \<open>
  \<^verbatim>\<open>
  for cpu, workload in zip(system.cpu_cluster.cpus, processes):
      cpu.workload = workload
  \<close>
  \<^verbatim>\<open>zip\<close> stops at the shorter list; the cores beyond it keep their state.
\<close>

fun assign_workloads :: "cpu list \<Rightarrow> process list \<Rightarrow> cpu list" where
  "assign_workloads (c # cs) (p # ps) = c\<lparr>workload := Some p\<rparr> # assign_workloads cs ps"
| "assign_workloads cs [] = cs"
| "assign_workloads [] ps = []"

text \<open>
  \<^verbatim>\<open>
  if args.l1d_size != "":
      devices.L1D.size = args.l1d_size
  if args.l1i_size != "":
      devices.L1I.size = args.l1i_size
  if args.l2_size != "":
      if args.l2_size == "0":
          cpu_types[args.cpu] = (cpu_types[args.cpu][0],
                                 cpu_types[args.cpu][1],
                                 cpu_types[args.cpu][2], None)
      else:
          devices.L2.size = args.l2_size
  \<close>
\<close>

definition apply_overrides :: "globals \<Rightarrow> args \<Rightarrow> error + globals" where
  "apply_overrides g a =
     (let g1 = (if l1d_size a \<noteq> [] then g\<lparr>L1D_size := l1d_size a\<rparr> else g);
          g2 = (if l1i_size a \<noteq> [] then g1\<lparr>L1I_size := l1i_size a\<rparr> else g1)
      in if l2_size a \<noteq> [] then
           (if l2_size a = ''0'' then
              (case cpu_types g2 (cpu a) of
                 None \<Rightarrow> Inl KeyError
               | Some (c, l1i, l1d, l2t) \<Rightarrow>
                   Inr (g2\<lparr>cpu_types := (cpu_types g2)(cpu a \<mapsto> (c, l1i, l1d, None))\<rparr>))
            else Inr (g2\<lparr>L2_size := l2_size a\<rparr>))
         else Inr g2)"

text \<open>
  \<^verbatim>\<open>
  def create(args):
      ... (the overrides, above)
      if args.random > 0:
          args, branchPred = generate_configs(args, args.random - 1)
      system = SimpleSeSystem(args)
      if args.random > 0:
          for i in range(args.num_cores):
              system.cpu_cluster.cpus[i].branchPred = branchPred()
      system.mem_ranges = [AddrRange(start=0, size=args.mem_size)]
      MemConfig.config_mem(args, system)
      system.connect()
      processes = get_processes(args.commands_to_run)
      if len(processes) != args.num_cores:
          print("Error: Cannot map %d command(s) onto %d CPU(s)" % ...)
          sys.exit(1)
      system.workload = SEWorkload.init_compatible(processes[0].executable)
      for cpu, workload in zip(system.cpu_cluster.cpus, processes):
          cpu.workload = workload
      return system
  \<close>
  \<^verbatim>\<open>MemConfig.config_mem\<close> and \<^verbatim>\<open>system.connect\<close> are the parameter \<open>memory_setup\<close>:
  an exception of theirs ends the assembly; the memory controllers they add when they
  return are no part of the state kept here.  The address range and the workload
  object of \<^verbatim>\<open>SEWorkload.init_compatible\<close> are kept by value; \<^verbatim>\<open>print\<close> is left out, and
  the name \<^verbatim>\<open>sys\<close> is taken to be bound by the star imports of the module.  The
  arguments in force after the call of \<^verbatim>\<open>generate_configs\<close> are \<open>effective_args\<close>.
\<close>

definition effective_args :: "env \<Rightarrow> args \<Rightarrow> args" where
  "effective_args e a =
     (if random_arg a > 0 then fst (generate_configs e a (random_arg a - 1)) else a)"

definition create ::
  "env \<Rightarrow> globals \<Rightarrow> world \<Rightarrow> args \<Rightarrow> error + (globals \<times> world \<times> se_system)" where
  "create e g w a0 =
     (case apply_overrides g a0 of
        Inl x \<Rightarrow> Inl x
      | Inr g1 \<Rightarrow>
     (let (a, bp) = (if random_arg a0 > 0
                     then (let (a', b) = generate_configs e a0 (random_arg a0 - 1)
                           in (a', Some b))
                     else (a0, None))
      in case SimpleSeSystem_init g1 w a of
           Inl x \<Rightarrow> Inl x
         | Inr (w1, s1) \<Rightarrow>
        (case (if random_arg a > 0
               then (case bp of
                       None \<Rightarrow> Inl NameError
                     | Some b \<Rightarrow> update_cpus (\<lambda>c. c\<lparr>branchPred := Some b\<rparr>)
                                  (range (num_cores a)) (cpus (cpu_cluster s1)))
               else Inr (cpus (cpu_cluster s1))) of
           Inl x \<Rightarrow> Inl x
         | Inr cs1 \<Rightarrow>
        (case memory_setup e a of
           Some x \<Rightarrow> Inl x
         | None \<Rightarrow>
        (case get_processes e (commands_to_run a) of
           Inl x \<Rightarrow> Inl x
         | Inr processes \<Rightarrow>
             if int (length processes) \<noteq> num_cores a then Inl (SystemExit 1)
             else
               (case subscript processes 0 of
                  Inl x \<Rightarrow> Inl x
                | Inr p0 \<Rightarrow>
                    Inr (g1, w1,
                         s1\<lparr>mem_ranges := [(0, mem_size a)],
                            se_workload := Some (executable p0),
                            cpu_cluster := (cpu_cluster s1)
                              \<lparr>cpus := assign_workloads cs1 processes\<rparr>\<rparr>)))))))"

text \<open>
  The dictionary \<^verbatim>\<open>cpu_types\<close> as the module defines it.

  Modelled from the spec: the CPU classes are not among the sources; the class of the
  \<^verbatim>\<open>atomic\<close> type declares a non-timing memory mode and needs no caches, the classes
  of the timing types declare the mode \<^verbatim>\<open>timing\<close> and need caches.
\<close>

definition atomic_class :: "string \<Rightarrow> cpu_class" where
  "atomic_class name = \<lparr>cls_name = name, memory_mode = ''atomic'', require_caches = False\<rparr>"

definition timing_class :: "string \<Rightarrow> cpu_class" where
  "timing_class name = \<lparr>cls_name = name, memory_mode = ''timing'', require_caches = True\<rparr>"

definition cpu_types_default :: "string \<rightharpoonup> cpu_config" where
  "cpu_types_default = map_of
     [(''atomic'', (atomic_class ''AtomicSimpleCPU'', None, None, None)),
      (''minor'', (timing_class ''MinorCPU'', Some ''L1I'', Some ''L1D'', Some ''L2'')),
      (''hpi'', (timing_class ''HPI'',
                Some ''HPI_ICache'', Some ''HPI_DCache'', Some ''HPI_L2'')),
      (''ac'', (atomic_class ''AtomicSimpleCPU'', Some ''L1I'', Some ''L1D'', Some ''L2'')),
      (''o3'', (timing_class ''O3CPU'', Some ''L1I'', Some ''L1D'', Some ''L2'')),
      (''timing'', (timing_class ''O3_ARM_v7a_3'', Some ''L1I'', Some ''L1D'', Some ''L2'')),
      (''ex5'', (timing_class ''ex5_big'',
                Some ''ex5_big.L1I'', Some ''ex5_big.L1D'', Some ''ex5_big.L2'')),
      (''ex5l'', (timing_class ''ex5_LITTLE'',
                 Some ''ex5_LITTLE.L1I'', Some ''ex5_LITTLE.L1D'', Some ''ex5_LITTLE.L2'')),
      (''pk'', (timing_class ''O3_ARM_PostK_3'',
               Some ''O3_ARM_PostK_ICache'', Some ''O3_ARM_PostK_DCache'',
               Some ''O3_ARM_PostK_L2''))]"

definition globals_default :: globals where
  "globals_default =
     \<lparr>cpu_types = cpu_types_default, L1D_size = ''32kB'', L1I_size = ''48kB'',
      L2_size = ''1MB''\<rparr>"

section \<open>Terms of the properties\<close>

text \<open>
  A world before any construction, and the bookkeeping of a system as its constructor
  leaves it (\<^verbatim>\<open>_clusters = []\<close>, \<^verbatim>\<open>_num_cpus = 0\<close>).
\<close>

definition world0 :: world where
  "world0 = \<lparr>next_oid = 0, wiring = []\<rparr>"

definition book0 :: cluster_book where
  "book0 = \<lparr>clusters = [], num_cpus = 0\<rparr>"

text \<open>
  Every registered cluster is an object that exists: its identity lies below the
  allocation counter.  A newly constructed object is then none of them.
\<close>

definition book_ok :: "world \<Rightarrow> 'a cluster_book_scheme \<Rightarrow> bool" where
  "book_ok w s = list_all (\<lambda>c. c < next_oid w) (clusters s)"

text \<open>
  A sequence of cluster constructions on one system, each given by its core count, clock,
  voltage and CPU configuration; the clusters are returned in the order of construction.
\<close>

fun build_clusters ::
  "world \<Rightarrow> 'a cluster_book_scheme \<Rightarrow> (int \<times> string \<times> string \<times> cpu_config) list \<Rightarrow>
     error + (world \<times> 'a cluster_book_scheme \<times> cluster list)" where
  "build_clusters w s [] = Inr (w, s, [])"
| "build_clusters w s ((n, clk, v, cfg) # rest) =
     (case CpuClusterRiscV_init w s n clk v cfg of
        Inl e \<Rightarrow> Inl e
      | Inr (w1, s1, c) \<Rightarrow>
          (case build_clusters w1 s1 rest of
             Inl e \<Rightarrow> Inl e
           | Inr (w2, s2, cs) \<Rightarrow> Inr (w2, s2, c # cs)))"

text \<open>The global core identifiers of a cluster, in the order of its cores.\<close>

definition core_ids :: "cluster \<Rightarrow> int list" where
  "core_ids c = map cpu_id (cpus c)"

text \<open>A construction request for two cores of the \<^verbatim>\<open>atomic\<close> type.\<close>

definition two_atomic :: "int \<times> string \<times> string \<times> cpu_config" where
  "two_atomic = (2, ''2GHz'', ''1.2V'', (atomic_class ''AtomicSimpleCPU'', None, None, None))"

text \<open>
  A platform whose interrupt controller has one redistributor region, with its buses,
  before any cluster is built on it; the controller and the two buses are the objects
  0, 1 and 2 of the world.
\<close>

definition gic0 :: gic where
  "gic0 = \<lparr>gic_oid = 0, redist_bases = [0x2c010000],
            gic_addr_ranges = [(0x2c000000, 0x2c010000)], has_gicv4_1 = False,
            cpu_affinities = [], reg_base_per_redistributor = []\<rparr>"

definition platform0 :: platform where
  "platform0 = \<lparr>clusters = [], num_cpus = 0, realview_gic = gic0, iobus = 1, membus = 2,
                 hub = None\<rparr>"

definition world3 :: world where
  "world3 = \<lparr>next_oid = 3, wiring = []\<rparr>"


text \<open>The configuration of the \<^verbatim>\<open>timing\<close> type, with its three cache classes.\<close>

definition timing_config :: cpu_config where
  "timing_config = (timing_class ''O3_ARM_v7a_3'', Some ''L1I'', Some ''L1D'', Some ''L2'')"


section \<open>Properties of the cluster composer\<close>

lemma make_cpus_ids:
  "make_cpus cls base clk idxs w = (cs, w') \<Longrightarrow>
     map cpu_id cs = map (\<lambda>i. base + i) idxs \<and> next_oid w' = next_oid w + length idxs
     \<and> wiring w' = wiring w \<and> distinct (map cpu_oid cs)
     \<and> (\<forall>c \<in> set cs. next_oid w \<le> cpu_oid c \<and> cpu_oid c < next_oid w')"
proof (induction idxs arbitrary: w cs w')
  case Nil
  then show ?case by simp
next
  case (Cons i idxs)
  obtain c w1 where c: "new_cpu cls (base + i) clk w = (c, w1)" by force
  obtain cs1 w2 where r: "make_cpus cls base clk idxs w1 = (cs1, w2)" by force
  from Cons.prems c r have eq: "cs = c # cs1" "w' = w2" by simp_all
  from c have c': "cpu_id c = base + i" "cpu_oid c = next_oid w" "next_oid w1 = Suc (next_oid w)"
    "wiring w1 = wiring w"
    by (auto simp: new_cpu_def new_obj_def)
  from Cons.IH[OF r] eq c' show ?case
    by fastforce
qed

lemma range_shift: "map (\<lambda>i. base + i) (range n) = [base .. base + n - 1]"
proof (rule nth_equalityI)
  show "length (map (\<lambda>i. base + i) (range n)) = length [base .. base + n - 1]"
    by (simp add: range_def)
next
  fix k assume "k < length (map (\<lambda>i. base + i) (range n))"
  then have k: "int k < n" by (simp add: range_def)
  then have "[0 .. n - 1] ! k = 0 + int k" and "[base .. base + n - 1] ! k = base + int k"
    by (simp_all only: nth_upto)
  with k show "map (\<lambda>i. base + i) (range n) ! k = [base .. base + n - 1] ! k"
    by (simp add: range_def)
qed

lemma length_range: "length (range n) = nat n"
  by (simp add: range_def)

lemma CpuClusterRiscV_init_ok:
  assumes "book_ok w s" and "0 < n"
  shows "\<exists>w' s' c. CpuClusterRiscV_init w s n clk v cfg = Inr (w', s', c)
           \<and> map cpu_id (cpus c) = [numCpus s .. numCpus s + n - 1]
           \<and> int (length (cpus c)) = n
           \<and> numCpus s' = numCpus s + n
           \<and> numCpuClusters s' = numCpuClusters s + 1
           \<and> clusters s' = clusters s @ [cluster_oid c]
           \<and> (\<forall>p \<in> set (cpus c). socket_id p = Some (numCpuClusters s))
           \<and> next_oid w \<le> next_oid w' \<and> wiring w' = wiring w
           \<and> book_ok w' s'"
proof -
  obtain ct l1i l1d l2t where cfg: "cfg = (ct, l1i, l1d, l2t)" by (cases cfg) auto
  define w0 where "w0 = w\<lparr>next_oid := Suc (next_oid w)\<rparr>"
  define w1 where "w1 = w0\<lparr>next_oid := Suc (next_oid w0)\<rparr>"
  define w2 where "w2 = w1\<lparr>next_oid := Suc (next_oid w1)\<rparr>"
  obtain cs w3 where mk: "make_cpus ct (numCpus s) (next_oid w1) (range n) w2 = (cs, w3)"
    by force
  note ids = make_cpus_ids[OF mk]
  have fresh: "next_oid w \<notin> set (clusters s)"
    using assms(1) by (auto simp: book_ok_def list_all_iff)
  have reg: "addCpuCluster s (next_oid w) n =
      Inr (s\<lparr>clusters := clusters s @ [next_oid w], num_cpus := num_cpus s + n\<rparr>)"
    using fresh assms(2) by (simp add: addCpuCluster_def)
  have run: "CpuClusterRiscV_init w s n clk v cfg =
      Inr (w3, s\<lparr>clusters := clusters s @ [next_oid w], num_cpus := num_cpus s + n\<rparr>,
           \<lparr>cluster_oid = next_oid w, cpu_type = ct, l1i_type = l1i, l1d_type = l1d,
            l2_type = l2t,
            voltage_domain = \<lparr>vd_oid = next_oid w0, voltage = v\<rparr>,
            clk_domain = \<lparr>cd_oid = next_oid w1, clock = clk, cd_voltage_domain = next_oid w0\<rparr>,
            cpus = map (init_cpu (numCpuClusters s)) cs, toL2Bus = None, l2 = None\<rparr>)"
    using assms(2) mk reg
    by (simp add: CpuClusterRiscV_init_def cfg new_obj_def w0_def w1_def w2_def)
  have ids': "map cpu_id (map (init_cpu (numCpuClusters s)) cs) = [numCpus s .. numCpus s + n - 1]"
    using ids by (simp add: range_shift init_cpu_def o_def)
  have "length cs = length (range n)"
    using ids by (metis length_map)
  then have len: "int (length cs) = n"
    using assms(2) by (simp add: length_range)
  have nx: "next_oid w3 = next_oid w + 3 + length (range n)" "wiring w3 = wiring w"
    using ids by (simp_all add: w0_def w1_def w2_def)
  have bk: "book_ok w3 (s\<lparr>clusters := clusters s @ [next_oid w], num_cpus := num_cpus s + n\<rparr>)"
    using assms(1) nx by (auto simp: book_ok_def list_all_iff)
  show ?thesis
    using run ids' len nx bk
    by (simp add: numCpus_def numCpuClusters_def init_cpu_def)
qed

lemma range_nat: "range n = map int [0 ..< nat n]"
proof (rule nth_equalityI)
  show "length (range n) = length (map int [0 ..< nat n])"
    by (simp add: range_def)
next
  fix k assume "k < length (range n)"
  then have k: "int k < n" by (simp add: range_def)
  then have "[0 .. n - 1] ! k = 0 + int k"
    by (simp only: nth_upto)
  with k show "range n ! k = map int [0 ..< nat n] ! k"
    by (simp add: range_def)
qed

lemma make_cpus_enum:
  "make_cpus cls base clk idxs w =
     (map (\<lambda>p. \<lparr>cpu_oid = next_oid w + fst p, cpu_cls = cls, cpu_id = base + snd p,
                 cpu_clk_domain = clk, threads_created = False,
                 interrupt_controller_created = False, socket_id = None, icache = None,
                 dcache = None, branchPred = None, max_insts_all_threads = None,
                 simpoint_probe = None, workload = None\<rparr>) (enumerate 0 idxs),
      w\<lparr>next_oid := next_oid w + length idxs\<rparr>)"
proof (induction idxs arbitrary: w)
  case Nil
  show ?case by simp
next
  case (Cons i idxs)
  show ?case
    by (simp add: Cons.IH new_cpu_def new_obj_def enumerate_Suc_eq o_def)
qed

lemma enumerate_map_upt: "enumerate 0 (map f [0 ..< k]) = map (\<lambda>j. (j, f j)) [0 ..< k]"
  by (simp add: enumerate_eq_zip zip_map2 zip_same_conv_map)

lemma make_cpus_range:
  "make_cpus cls base clk (range n) w =
     (map (\<lambda>j. \<lparr>cpu_oid = next_oid w + j, cpu_cls = cls, cpu_id = base + int j,
                 cpu_clk_domain = clk, threads_created = False,
                 interrupt_controller_created = False, socket_id = None, icache = None,
                 dcache = None, branchPred = None, max_insts_all_threads = None,
                 simpoint_probe = None, workload = None\<rparr>) [0 ..< nat n],
      w\<lparr>next_oid := next_oid w + nat n\<rparr>)"
  by (simp add: make_cpus_enum range_nat enumerate_map_upt o_def)

lemma CpuClusterRiscV_init_eq:
  assumes "book_ok w s" and "0 < n"
  shows "CpuClusterRiscV_init w s n clk v (ct, l1i, l1d, l2t) =
      Inr (w\<lparr>next_oid := next_oid w + 3 + nat n\<rparr>,
           s\<lparr>clusters := clusters s @ [next_oid w], num_cpus := num_cpus s + n\<rparr>,
           \<lparr>cluster_oid = next_oid w, cpu_type = ct, l1i_type = l1i, l1d_type = l1d,
            l2_type = l2t,
            voltage_domain = \<lparr>vd_oid = next_oid w + 1, voltage = v\<rparr>,
            clk_domain = \<lparr>cd_oid = next_oid w + 2, clock = clk,
                          cd_voltage_domain = next_oid w + 1\<rparr>,
            cpus = map (\<lambda>j. \<lparr>cpu_oid = next_oid w + 3 + j, cpu_cls = ct,
                 cpu_id = numCpus s + int j,
                 cpu_clk_domain = next_oid w + 2, threads_created = True,
                 interrupt_controller_created = True,
                 socket_id = Some (numCpuClusters s), icache = None,
                 dcache = None, branchPred = None, max_insts_all_threads = None,
                 simpoint_probe = None, workload = None\<rparr>) [0 ..< nat n],
            toL2Bus = None, l2 = None\<rparr>)"
proof -
  have fresh: "next_oid w \<notin> set (clusters s)"
    using assms(1) by (auto simp: book_ok_def list_all_iff)
  have reg: "addCpuCluster s (next_oid w) n =
      Inr (s\<lparr>clusters := clusters s @ [next_oid w], num_cpus := num_cpus s + n\<rparr>)"
    using fresh assms(2) by (simp add: addCpuCluster_def)
  show ?thesis
    using assms(2)
    by (simp add: CpuClusterRiscV_init_def new_obj_def make_cpus_range reg init_cpu_def o_def)
qed

lemma CpuClusterRiscV_init_Inr:
  assumes "CpuClusterRiscV_init w s n clk v cfg = Inr r"
  shows "0 < n \<and> next_oid w \<notin> set (clusters s)"
  using assms
  by (cases cfg)
     (auto simp: CpuClusterRiscV_init_def new_obj_def addCpuCluster_def Let_def
           split: if_splits prod.splits sum.splits)

text \<open>
  Claim C9.  Constructing a standard cluster with a core count of zero or below fails:
  the assertion \<^verbatim>\<open>num_cpus > 0\<close> is the first statement after the fields are stored
  and raises before a domain or a core is constructed.  With a core count \<open>n\<close> above
  zero, on a system whose registered clusters are existing objects, the construction
  succeeds and produces exactly \<open>n\<close> cores: \<open>n\<close> new objects, different from one another
  and from the cluster and its two domains, each of the configured CPU class, in the
  cluster's clock domain, with its threads and interrupt controller created, the socket
  id of the cluster, the next global identifier, and no cache, predictor, limit, probe
  or workload yet.  The world has grown by the cluster, its two domains and the \<open>n\<close>
  cores, nothing is wired, and the system has registered the cluster and added \<open>n\<close> to
  its core count.
\<close>

theorem CpuClusterRiscV_core_count:
  "(n \<le> 0 \<longrightarrow> CpuClusterRiscV_init w s n clk v (ct, l1i, l1d, l2t) = Inl AssertionError) \<and>
   (0 < n \<and> book_ok w s \<longrightarrow>
      (\<exists>w' s' c. CpuClusterRiscV_init w s n clk v (ct, l1i, l1d, l2t) = Inr (w', s', c)
         \<and> int (length (cpus c)) = n
         \<and> cpus c = map (\<lambda>j. \<lparr>cpu_oid = next_oid w + 3 + j, cpu_cls = ct,
                 cpu_id = numCpus s + int j,
                 cpu_clk_domain = next_oid w + 2, threads_created = True,
                 interrupt_controller_created = True,
                 socket_id = Some (numCpuClusters s), icache = None,
                 dcache = None, branchPred = None, max_insts_all_threads = None,
                 simpoint_probe = None, workload = None\<rparr>) [0 ..< nat n]
         \<and> map cpu_oid (cpus c) = [next_oid w + 3 ..< next_oid w + 3 + nat n]
         \<and> distinct (map cpu_oid (cpus c))
         \<and> next_oid w' = next_oid w + 3 + nat n \<and> wiring w' = wiring w
         \<and> s' = s\<lparr>clusters := clusters s @ [next_oid w], num_cpus := num_cpus s + n\<rparr>
         \<and> cluster_oid c = next_oid w \<and> cpu_type c = ct
         \<and> l1i_type c = l1i \<and> l1d_type c = l1d \<and> l2_type c = l2t
         \<and> voltage_domain c = \<lparr>vd_oid = next_oid w + 1, voltage = v\<rparr>
         \<and> clk_domain c = \<lparr>cd_oid = next_oid w + 2, clock = clk,
                             cd_voltage_domain = next_oid w + 1\<rparr>
         \<and> toL2Bus c = None \<and> l2 c = None))"
proof (intro conjI impI)
  assume "n \<le> 0"
  then show "CpuClusterRiscV_init w s n clk v (ct, l1i, l1d, l2t) = Inl AssertionError"
    by (simp add: CpuClusterRiscV_init_def new_obj_def)
next
  assume a: "0 < n \<and> book_ok w s"
  then have ok: "book_ok w s" and n: "0 < n" by simp_all
  have m: "map (\<lambda>j. next_oid w + 3 + j) [0 ..< nat n] = [next_oid w + 3 ..< next_oid w + 3 + nat n]"
    using map_add_upt[of "next_oid w + 3" "nat n"] by (simp add: add.commute)
  show "\<exists>w' s' c. CpuClusterRiscV_init w s n clk v (ct, l1i, l1d, l2t) = Inr (w', s', c)
         \<and> int (length (cpus c)) = n
         \<and> cpus c = map (\<lambda>j. \<lparr>cpu_oid = next_oid w + 3 + j, cpu_cls = ct,
                 cpu_id = numCpus s + int j,
                 cpu_clk_domain = next_oid w + 2, threads_created = True,
                 interrupt_controller_created = True,
                 socket_id = Some (numCpuClusters s), icache = None,
                 dcache = None, branchPred = None, max_insts_all_threads = None,
                 simpoint_probe = None, workload = None\<rparr>) [0 ..< nat n]
         \<and> map cpu_oid (cpus c) = [next_oid w + 3 ..< next_oid w + 3 + nat n]
         \<and> distinct (map cpu_oid (cpus c))
         \<and> next_oid w' = next_oid w + 3 + nat n \<and> wiring w' = wiring w
         \<and> s' = s\<lparr>clusters := clusters s @ [next_oid w], num_cpus := num_cpus s + n\<rparr>
         \<and> cluster_oid c = next_oid w \<and> cpu_type c = ct
         \<and> l1i_type c = l1i \<and> l1d_type c = l1d \<and> l2_type c = l2t
         \<and> voltage_domain c = \<lparr>vd_oid = next_oid w + 1, voltage = v\<rparr>
         \<and> clk_domain c = \<lparr>cd_oid = next_oid w + 2, clock = clk,
                             cd_voltage_domain = next_oid w + 1\<rparr>
         \<and> toL2Bus c = None \<and> l2 c = None"
    unfolding CpuClusterRiscV_init_eq[OF ok n]
    apply (intro exI conjI)
                     apply (rule refl)
    using n m by (simp_all add: o_def)
qed

theorem CpuClusterRiscV_core_count_witness:
  "CpuClusterRiscV_init world0 book0 0 ''2GHz'' ''1.2V''
       (atomic_class ''AtomicSimpleCPU'', None, None, None) = Inl AssertionError
   \<and> (0 < (3::int) \<and> book_ok world0 book0)
   \<and> (\<exists>w' s' c. CpuClusterRiscV_init world0 book0 3 ''2GHz'' ''1.2V''
          (atomic_class ''AtomicSimpleCPU'', None, None, None) = Inr (w', s', c)
         \<and> map cpu_oid (cpus c) = [3, 4, 5] \<and> map cpu_id (cpus c) = [0, 1, 2]
         \<and> next_oid w' = 6 \<and> clusters s' = [0] \<and> num_cpus s' = 3)"
proof -
  have ok: "book_ok world0 book0"
    by (simp add: book_ok_def book0_def)
  have z: "CpuClusterRiscV_init world0 book0 0 ''2GHz'' ''1.2V''
       (atomic_class ''AtomicSimpleCPU'', None, None, None) = Inl AssertionError"
    using CpuClusterRiscV_core_count[of 0 world0 book0 "''2GHz''" "''1.2V''"
          "atomic_class ''AtomicSimpleCPU''" None None None]
    by simp
  have "0 < (3::int) \<and> book_ok world0 book0" using ok by simp
  from CpuClusterRiscV_core_count[of 3 world0 book0 "''2GHz''" "''1.2V''"
          "atomic_class ''AtomicSimpleCPU''" None None None, THEN conjunct2, rule_format, OF this]
  obtain w' s' c where r: "CpuClusterRiscV_init world0 book0 3 ''2GHz'' ''1.2V''
          (atomic_class ''AtomicSimpleCPU'', None, None, None) = Inr (w', s', c)"
    "cpus c = map (\<lambda>j. \<lparr>cpu_oid = next_oid world0 + 3 + j,
                 cpu_cls = atomic_class ''AtomicSimpleCPU'',
                 cpu_id = numCpus book0 + int j,
                 cpu_clk_domain = next_oid world0 + 2, threads_created = True,
                 interrupt_controller_created = True,
                 socket_id = Some (numCpuClusters book0), icache = None,
                 dcache = None, branchPred = None, max_insts_all_threads = None,
                 simpoint_probe = None, workload = None\<rparr>) [0 ..< nat 3]"
    "next_oid w' = next_oid world0 + 3 + nat 3"
    "s' = book0\<lparr>clusters := clusters book0 @ [next_oid world0], num_cpus := num_cpus book0 + 3\<rparr>"
    by (elim conjE exE) (rule that)
  have u: "[0 ..< nat 3] = [0, 1, 2]"
    by (simp add: upt_conv_Cons)
  have "\<exists>w' s' c. CpuClusterRiscV_init world0 book0 3 ''2GHz'' ''1.2V''
          (atomic_class ''AtomicSimpleCPU'', None, None, None) = Inr (w', s', c)
         \<and> map cpu_oid (cpus c) = [3, 4, 5] \<and> map cpu_id (cpus c) = [0, 1, 2]
         \<and> next_oid w' = 6 \<and> clusters s' = [0] \<and> num_cpus s' = 3"
    apply (rule exI[of _ w'], rule exI[of _ s'], rule exI[of _ c])
    using r unfolding u by (simp add: world0_def book0_def numCpus_def)
  with z ok show ?thesis by simp
qed

lemma upto_append: "0 \<le> n \<Longrightarrow> 0 \<le> m \<Longrightarrow> [a .. a + n - 1] @ [a + n .. a + n + m - 1] = [a .. a + n + m - 1]"
  by (smt (verit, best) upto_split2 upto_Nil append_Nil append_Nil2 upto_empty)

lemma sum_list_fst_nonneg: "\<forall>x \<in> set specs. 1 \<le> fst x \<Longrightarrow> 0 \<le> sum_list (map fst specs)" for specs :: "(int \<times> 'b) list"
  by (induction specs) auto

lemma build_clusters_ok:
  assumes "book_ok w s" and "\<forall>x \<in> set specs. 1 \<le> fst x"
  shows "\<exists>w' s' cls. build_clusters w s specs = Inr (w', s', cls)
     \<and> length cls = length specs
     \<and> (\<forall>k < length specs. core_ids (cls ! k) =
            map (\<lambda>idx. numCpus s + sum_list (map fst (take k specs)) + idx) (range (fst (specs ! k))))
     \<and> concat (map core_ids cls) = [numCpus s .. numCpus s + sum_list (map fst specs) - 1]
     \<and> numCpus s' = numCpus s + sum_list (map fst specs)
     \<and> book_ok w' s'"
  using assms
proof (induction specs arbitrary: w s)
  case Nil
  then show ?case by simp
next
  case (Cons x specs)
  obtain n clk v cfg where x: "x = (n, clk, v, cfg)" by (cases x) auto
  from Cons.prems x have n: "0 < n" "1 \<le> n" by auto
  from CpuClusterRiscV_init_ok[OF Cons.prems(1) n(1), of clk v cfg]
  obtain w1 s1 c where c: "CpuClusterRiscV_init w s n clk v cfg = Inr (w1, s1, c)"
    "map cpu_id (cpus c) = [numCpus s .. numCpus s + n - 1]"
    "numCpus s1 = numCpus s + n" "book_ok w1 s1" by blast
  from Cons.prems have rest: "\<forall>x \<in> set specs. 1 \<le> fst x" by simp
  from Cons.IH[OF c(4) rest]
  obtain w2 s2 cls where r: "build_clusters w1 s1 specs = Inr (w2, s2, cls)"
    "length cls = length specs"
    "\<forall>k < length specs. core_ids (cls ! k) =
            map (\<lambda>idx. numCpus s1 + sum_list (map fst (take k specs)) + idx) (range (fst (specs ! k)))"
    "concat (map core_ids cls) = [numCpus s1 .. numCpus s1 + sum_list (map fst specs) - 1]"
    "numCpus s2 = numCpus s1 + sum_list (map fst specs)" "book_ok w2 s2" by blast
  have run: "build_clusters w s (x # specs) = Inr (w2, s2, c # cls)"
    using c(1) r(1) x by simp
  have m: "0 \<le> sum_list (map fst specs)" using sum_list_fst_nonneg[OF rest] .
  have cat: "concat (map core_ids (c # cls)) =
     [numCpus s .. numCpus s + sum_list (map fst (x # specs)) - 1]"
    using r(4) c(2,3) x upto_append[of n "sum_list (map fst specs)" "numCpus s"] n m
    by (simp add: core_ids_def add.assoc)
  have each: "\<forall>k < length (x # specs). core_ids ((c # cls) ! k) =
      map (\<lambda>idx. numCpus s + sum_list (map fst (take k (x # specs))) + idx)
          (range (fst ((x # specs) ! k)))"
  proof (intro allI impI)
    fix k assume k: "k < length (x # specs)"
    show "core_ids ((c # cls) ! k) =
      map (\<lambda>idx. numCpus s + sum_list (map fst (take k (x # specs))) + idx)
          (range (fst ((x # specs) ! k)))"
    proof (cases k)
      case 0
      then show ?thesis using c(2) x by (simp add: core_ids_def range_shift)
    next
      case (Suc j)
      with k have "j < length specs" by simp
      with r(3) have "core_ids (cls ! j) =
            map (\<lambda>idx. numCpus s1 + sum_list (map fst (take j specs)) + idx) (range (fst (specs ! j)))"
        by blast
      then show ?thesis using Suc c(3) x by (simp add: add.assoc)
    qed
  qed
  show ?case using run r(2,5,6) c(3) cat each x
    by (simp add: add.assoc)
qed

text \<open>
  Claim C1.  On every system whose registered clusters are existing objects, every
  sequence of cluster constructions with core counts of at least one succeeds, and the
  \<open>k\<close>-th cluster's cores receive the identifiers "total core count before the
  construction plus the core's index": the system's count at the start, plus the core
  counts of the clusters constructed before, plus the index.  All identifiers together
  are the interval from the start count to the start count plus the sum of the core
  counts, in increasing order, without gap or repetition, and the system's total grows
  by that sum.  The witness is the scenario of two clusters of two cores each on a new
  system: the identifiers are 0, 1 and then 2, 3.
\<close>

theorem cluster_core_ids:
  assumes "book_ok w s" and "\<forall>x \<in> set specs. 1 \<le> fst x"
  shows "\<exists>w' s' cls. build_clusters w s specs = Inr (w', s', cls)
     \<and> length cls = length specs
     \<and> (\<forall>k < length specs. core_ids (cls ! k) =
            map (\<lambda>idx. numCpus s + sum_list (map fst (take k specs)) + idx)
                (range (fst (specs ! k))))
     \<and> concat (map core_ids cls) = [numCpus s .. numCpus s + sum_list (map fst specs) - 1]
     \<and> distinct (concat (map core_ids cls))
     \<and> sorted_wrt (<) (concat (map core_ids cls))
     \<and> numCpus s' = numCpus s + sum_list (map fst specs)"
proof -
  from build_clusters_ok[OF assms]
  obtain w' s' cls where r: "build_clusters w s specs = Inr (w', s', cls)"
    "length cls = length specs"
    "\<forall>k < length specs. core_ids (cls ! k) =
            map (\<lambda>idx. numCpus s + sum_list (map fst (take k specs)) + idx)
                (range (fst (specs ! k)))"
    "concat (map core_ids cls) = [numCpus s .. numCpus s + sum_list (map fst specs) - 1]"
    "numCpus s' = numCpus s + sum_list (map fst specs)" by blast
  from r(4) have "distinct (concat (map core_ids cls))"
    and "sorted_wrt (<) (concat (map core_ids cls))"
    by (simp_all only: distinct_upto sorted_wrt_upto)
  with r show ?thesis by blast
qed

theorem cluster_core_ids_witness:
  "book_ok world0 book0 \<and>
   (\<exists>w' s' cls. build_clusters world0 book0 [two_atomic, two_atomic] = Inr (w', s', cls)
      \<and> map core_ids cls = [[0, 1], [2, 3]] \<and> numCpus s' = 4)"
proof -
  have h1: "book_ok world0 book0"
    by (simp add: book_ok_def book0_def world0_def)
  have h2: "\<forall>x \<in> set [two_atomic, two_atomic]. 1 \<le> fst x"
    by (simp add: two_atomic_def)
  from cluster_core_ids[OF h1 h2]
  obtain w' s' cls where r:
    "build_clusters world0 book0 [two_atomic, two_atomic] = Inr (w', s', cls)"
    "length cls = length [two_atomic, two_atomic]"
    "\<forall>k < length [two_atomic, two_atomic]. core_ids (cls ! k) =
        map (\<lambda>idx. numCpus book0 + sum_list (map fst (take k [two_atomic, two_atomic])) + idx)
            (range (fst ([two_atomic, two_atomic] ! k)))"
    "numCpus s' = numCpus book0 + sum_list (map fst [two_atomic, two_atomic])"
    by blast
  from r(2) obtain a b where cls: "cls = [a, b]"
    by (cases cls; cases "tl cls") auto
  from r(3) have "core_ids (cls ! 0) = [0, 1]" and "core_ids (cls ! 1) = [2, 3]"
    by (simp_all add: two_atomic_def numCpus_def book0_def range_def upto_rec1)
  with cls have m1: "map core_ids cls = [[0, 1], [2, 3]]" by simp
  from r(4) have m2: "numCpus s' = 4"
    by (simp add: two_atomic_def numCpus_def book0_def)
  have ex: "\<exists>w' s' cls. build_clusters world0 book0 [two_atomic, two_atomic] = Inr (w', s', cls)
      \<and> map core_ids cls = [[0, 1], [2, 3]] \<and> numCpus s' = 4"
    using r(1) m1 m2 by (intro exI[of _ w'] exI[of _ s'] exI[of _ cls] conjI)
  from h1 ex show ?thesis by (intro conjI)
qed

section \<open>Properties of the bridge assembler\<close>

lemma subscript_0_Cons: "subscript (x # xs) 0 = Inr x"
  by (simp add: subscript_def list_index_def)

lemma setup_gic_ok:
  assumes "redist_bases (realview_gic s) = b # bs"
  shows "setup_gic w s n =
       Inr (w\<lparr>next_oid := next_oid w + 5,
              wiring := wiring w @
          [(Port (next_oid w) ''amba'', Port (gic_oid (realview_gic s)) ''amba_m''),
           (Port (next_oid w + 1) ''tlm'', Port (next_oid w) ''tlm''),
           (Port (next_oid w + 1) ''gem5'', Port (iobus s) ''cpu_side_ports''),
           (Port (next_oid w + 2) ''gem5'', Port (membus s) ''mem_side_ports''),
           (Port (next_oid w + 3) ''tlm'', Port (next_oid w + 2) ''tlm''),
           (Port (gic_oid (realview_gic s)) ''amba_s'', Port (next_oid w + 3) ''amba'')]\<rparr>,
            s\<lparr>realview_gic := (realview_gic s)
                   \<lparr>cpu_affinities := range n,
                    reg_base_per_redistributor :=
                      redist_table b (has_gicv4_1 (realview_gic s)) n\<rparr>,
                 hub := Some \<lparr>hub_oid = next_oid w + 4, children =
                   [(''gic_a2t'', \<lparr>bridge_oid = next_oid w,
                       bridge_cls = ''AmbaToTlmBridge64'', addr_ranges = []\<rparr>),
                    (''gic_t2g'', \<lparr>bridge_oid = next_oid w + 1,
                       bridge_cls = ''TlmToGem5Bridge64'', addr_ranges = []\<rparr>),
                    (''gic_g2t'', \<lparr>bridge_oid = next_oid w + 2,
                       bridge_cls = ''Gem5ToTlmBridge64'',
                       addr_ranges = gic_addr_ranges (realview_gic s)\<rparr>),
                    (''gic_t2a'', \<lparr>bridge_oid = next_oid w + 3,
                       bridge_cls = ''AmbaFromTlmBridge64'', addr_ranges = []\<rparr>)]\<rparr>\<rparr>)"
  using assms
  by (simp add: setup_gic_def Let_def subscript_0_Cons new_obj_def bind_def)

lemma setup_gic_fail:
  assumes "redist_bases (realview_gic s) = []"
  shows "setup_gic w s n =
     Inl (IndexError, w, s\<lparr>realview_gic := (realview_gic s)\<lparr>cpu_affinities := range n\<rparr>\<rparr>)"
  using assms by (simp add: setup_gic_def Let_def subscript_def list_index_def)

lemma distinct_redist: "distinct (map snd (redist_table b v n))"
proof -
  have "inj (\<lambda>i. b + redist_frame_size v * i)"
    by (rule injI) (simp add: redist_frame_size_def split: if_splits)
  then have "distinct (map (\<lambda>i. b + redist_frame_size v * i) (range n))"
    by (simp add: distinct_map range_def inj_on_def)
  then show ?thesis by (simp add: redist_table_def o_def)
qed

lemma subscript_CpuClasses:
  "1 \<le> n \<Longrightarrow> n \<le> 4 \<Longrightarrow> \<exists>c. subscript CpuClasses (n - 1) = Inr c \<and> int (cores_of c) = n"
proof -
  assume "1 \<le> n" "n \<le> 4"
  then have "n = 1 \<or> n = 2 \<or> n = 3 \<or> n = 4" by arith
  then show ?thesis
    by (auto simp: subscript_def list_index_def CpuClasses_def)
qed

lemma subscript_CpuClasses_minus: "subscript CpuClasses (0 - 1) = Inr FastModelCortexA76x4"
  by (simp add: subscript_def list_index_def CpuClasses_def)

lemma new_cores_eq:
  "new_cores k w =
     (map (\<lambda>j. \<lparr>core_oid = next_oid w + j, semihosting_enable = True, RVBARADDR = 0,
                 redistributor = None, core_threads_created = False,
                 core_interrupt_controller_created = False\<rparr>) [0 ..< k],
      w\<lparr>next_oid := next_oid w + k\<rparr>)"
proof (induction k arbitrary: w)
  case 0
  show ?case by simp
next
  case (Suc k)
  have u: "[0 ..< Suc k] = 0 # map Suc [0 ..< k]"
    by (simp only: upt_conv_Cons zero_less_Suc map_Suc_upt if_True)
  show ?case
    unfolding u by (simp add: Suc.IH new_obj_def o_def)
qed

lemma new_fm_cpu_eq:
  "new_fm_cpu cls w =
     (\<lparr>fm_oid = next_oid w, fm_cls = cls, GICDISABLE = False,
       cores = map (\<lambda>j. \<lparr>core_oid = next_oid w + 1 + j, semihosting_enable = True,
                 RVBARADDR = 0, redistributor = None, core_threads_created = False,
                 core_interrupt_controller_created = False\<rparr>) [0 ..< cores_of cls]\<rparr>,
      w\<lparr>next_oid := next_oid w + 1 + cores_of cls\<rparr>)"
  by (simp add: new_fm_cpu_def new_obj_def new_cores_eq)

lemma FastmodelCluster_init_eq:
  assumes rb: "redist_bases (realview_gic system) = b # bs"
    and n4: "n \<le> 4" and sub: "subscript CpuClasses (n - 1) = Inr cls"
  shows "FastmodelCluster_init reg w system n clk v =
        (case reg \<lparr>clusters = clusters system, num_cpus = num_cpus system\<rparr> (next_oid w) n of
           Inl e \<Rightarrow> Inl (e,
             w\<lparr>next_oid := next_oid w + 11 + cores_of cls,
               wiring := wiring w @
          [(Port (next_oid w + 1) ''amba'', Port (gic_oid (realview_gic system)) ''amba_m''),
           (Port (next_oid w + 2) ''tlm'', Port (next_oid w + 1) ''tlm''),
           (Port (next_oid w + 2) ''gem5'', Port (iobus system) ''cpu_side_ports''),
           (Port (next_oid w + 3) ''gem5'', Port (membus system) ''mem_side_ports''),
           (Port (next_oid w + 4) ''tlm'', Port (next_oid w + 3) ''tlm''),
           (Port (gic_oid (realview_gic system)) ''amba_s'', Port (next_oid w + 4) ''amba''),
           (Port (next_oid w + 9 + cores_of cls) ''amba'', Port (next_oid w + 8) ''amba''),
           (Port (next_oid w + 10 + cores_of cls) ''tlm'',
            Port (next_oid w + 9 + cores_of cls) ''tlm''),
           (Port (next_oid w + 10 + cores_of cls) ''gem5'',
            Port (membus system) ''cpu_side_ports'')]\<rparr>,
             system\<lparr>realview_gic := (realview_gic system)
                   \<lparr>cpu_affinities := range n,
                    reg_base_per_redistributor :=
                      redist_table b (has_gicv4_1 (realview_gic system)) n\<rparr>,
                 hub := Some \<lparr>hub_oid = next_oid w + 5, children =
                   [(''gic_a2t'', \<lparr>bridge_oid = next_oid w + 1,
                       bridge_cls = ''AmbaToTlmBridge64'', addr_ranges = []\<rparr>),
                    (''gic_t2g'', \<lparr>bridge_oid = next_oid w + 2,
                       bridge_cls = ''TlmToGem5Bridge64'', addr_ranges = []\<rparr>),
                    (''gic_g2t'', \<lparr>bridge_oid = next_oid w + 3,
                       bridge_cls = ''Gem5ToTlmBridge64'',
                       addr_ranges = gic_addr_ranges (realview_gic system)\<rparr>),
                    (''gic_t2a'', \<lparr>bridge_oid = next_oid w + 4,
                       bridge_cls = ''AmbaFromTlmBridge64'', addr_ranges = []\<rparr>),
                    (''a2t'', \<lparr>bridge_oid = next_oid w + 9 + cores_of cls,
                       bridge_cls = ''AmbaToTlmBridge64'', addr_ranges = []\<rparr>),
                    (''t2g'', \<lparr>bridge_oid = next_oid w + 10 + cores_of cls,
                       bridge_cls = ''TlmToGem5Bridge64'', addr_ranges = []\<rparr>)]\<rparr>\<rparr>)
         | Inr book \<Rightarrow> Inr (
             w\<lparr>next_oid := next_oid w + 11 + cores_of cls,
               wiring := wiring w @
          [(Port (next_oid w + 1) ''amba'', Port (gic_oid (realview_gic system)) ''amba_m''),
           (Port (next_oid w + 2) ''tlm'', Port (next_oid w + 1) ''tlm''),
           (Port (next_oid w + 2) ''gem5'', Port (iobus system) ''cpu_side_ports''),
           (Port (next_oid w + 3) ''gem5'', Port (membus system) ''mem_side_ports''),
           (Port (next_oid w + 4) ''tlm'', Port (next_oid w + 3) ''tlm''),
           (Port (gic_oid (realview_gic system)) ''amba_s'', Port (next_oid w + 4) ''amba''),
           (Port (next_oid w + 9 + cores_of cls) ''amba'', Port (next_oid w + 8) ''amba''),
           (Port (next_oid w + 10 + cores_of cls) ''tlm'',
            Port (next_oid w + 9 + cores_of cls) ''tlm''),
           (Port (next_oid w + 10 + cores_of cls) ''gem5'',
            Port (membus system) ''cpu_side_ports'')]\<rparr>,
             system\<lparr>realview_gic := (realview_gic system)
                   \<lparr>cpu_affinities := range n,
                    reg_base_per_redistributor :=
                      redist_table b (has_gicv4_1 (realview_gic system)) n\<rparr>,
                 hub := Some \<lparr>hub_oid = next_oid w + 5, children =
                   [(''gic_a2t'', \<lparr>bridge_oid = next_oid w + 1,
                       bridge_cls = ''AmbaToTlmBridge64'', addr_ranges = []\<rparr>),
                    (''gic_t2g'', \<lparr>bridge_oid = next_oid w + 2,
                       bridge_cls = ''TlmToGem5Bridge64'', addr_ranges = []\<rparr>),
                    (''gic_g2t'', \<lparr>bridge_oid = next_oid w + 3,
                       bridge_cls = ''Gem5ToTlmBridge64'',
                       addr_ranges = gic_addr_ranges (realview_gic system)\<rparr>),
                    (''gic_t2a'', \<lparr>bridge_oid = next_oid w + 4,
                       bridge_cls = ''AmbaFromTlmBridge64'', addr_ranges = []\<rparr>),
                    (''a2t'', \<lparr>bridge_oid = next_oid w + 9 + cores_of cls,
                       bridge_cls = ''AmbaToTlmBridge64'', addr_ranges = []\<rparr>),
                    (''t2g'', \<lparr>bridge_oid = next_oid w + 10 + cores_of cls,
                       bridge_cls = ''TlmToGem5Bridge64'', addr_ranges = []\<rparr>)]\<rparr>,
                 clusters := clusters book, num_cpus := num_cpus book\<rparr>,
             \<lparr>fm_cluster_oid = next_oid w,
              fm_voltage_domain = \<lparr>vd_oid = next_oid w + 6, voltage = v\<rparr>,
              fm_clk_domain = \<lparr>cd_oid = next_oid w + 7, clock = clk,
                               cd_voltage_domain = next_oid w + 6\<rparr>,
              fm_cpus = [\<lparr>fm_oid = next_oid w + 8, fm_cls = cls, GICDISABLE = False,
                 cores = map (\<lambda>j. \<lparr>core_oid = next_oid w + 9 + j, semihosting_enable = False,
                   RVBARADDR = 0x10, redistributor = Some (gic_oid (realview_gic system)),
                   core_threads_created = True,
                   core_interrupt_controller_created = True\<rparr>) [0 ..< cores_of cls]\<rparr>]\<rparr>))"
proof (cases "reg \<lparr>clusters = clusters system, num_cpus = num_cpus system\<rparr> (next_oid w) n")
  case (Inl e)
  show ?thesis
    unfolding FastmodelCluster_init_def
    using n4
    by (simp add: new_obj_def setup_gic_ok[OF rb] sub Let_def bind_def new_fm_cpu_eq Inl)
next
  case (Inr book)
  show ?thesis
    unfolding FastmodelCluster_init_def
    using n4
    by (simp add: new_obj_def setup_gic_ok[OF rb] sub Let_def bind_def new_fm_cpu_eq Inr
          setup_core_def o_def)
qed

text \<open>
  Claim C6.  On a platform whose interrupt controller has a redistributor region with
  base \<open>b\<close>, for every core count from 1 to 4 and whatever the registration does, the
  constructor leaves in the controller the table whose entry for core \<open>i\<close> is the address
  \<open>b + frame_size * i\<close>, where the frame size is \<open>0x40000\<close> when the version flag is set
  and \<open>0x20000\<close> otherwise; the table has one entry for each index \<open>0, \<dots>, n - 1\<close>, and
  its addresses are pairwise distinct.  The witness is the four-core construction, which
  returns a cluster and leaves four addresses \<open>0x20000\<close> apart.
\<close>

theorem redistributor_bases:
  assumes "redist_bases (realview_gic system) = b # bs" and "1 \<le> n" and "n \<le> 4"
  shows "\<exists>t. reg_base_per_redistributor
             (realview_gic (system_after (FastmodelCluster_init reg w system n clk v))) = t
     \<and> t = map (\<lambda>i. (i, b + (if has_gicv4_1 (realview_gic system) then 0x40000 else 0x20000) * i))
              (range n)
     \<and> map fst t = [0 .. n - 1]
     \<and> int (length t) = n
     \<and> distinct (map snd t)"
proof -
  from subscript_CpuClasses[OF assms(2,3)]
  obtain cls where sub: "subscript CpuClasses (n - 1) = Inr cls" by blast
  have t: "reg_base_per_redistributor
             (realview_gic (system_after (FastmodelCluster_init reg w system n clk v))) =
      redist_table b (has_gicv4_1 (realview_gic system)) n"
    by (simp add: FastmodelCluster_init_eq[OF assms(1,3) sub] system_after_def
          split: sum.split)
  have "int (length (redist_table b (has_gicv4_1 (realview_gic system)) n)) = n"
    using assms(2) by (simp add: redist_table_def length_range)
  moreover have "redist_table b (has_gicv4_1 (realview_gic system)) n =
      map (\<lambda>i. (i, b + (if has_gicv4_1 (realview_gic system) then 0x40000 else 0x20000) * i))
          (range n)"
    by (simp add: redist_table_def redist_frame_size_def)
  moreover have "map fst (redist_table b (has_gicv4_1 (realview_gic system)) n) = [0 .. n - 1]"
    by (simp add: redist_table_def range_def o_def)
  ultimately show ?thesis
    using t distinct_redist[of b "has_gicv4_1 (realview_gic system)" n]
    by simp
qed

theorem redistributor_bases_witness:
  "(\<exists>w' s' c. FastmodelCluster_init register_cluster world3 platform0 4 ''2GHz'' ''1.0V'' =
        Inr (w', s', c))
   \<and> reg_base_per_redistributor (realview_gic (system_after
        (FastmodelCluster_init register_cluster world3 platform0 4 ''2GHz'' ''1.0V''))) =
          [(0, 0x2c010000), (1, 0x2c030000), (2, 0x2c050000), (3, 0x2c070000)]"
proof -
  have h: "redist_bases (realview_gic platform0) = [0x2c010000]"
    by (simp add: platform0_def gic0_def)
  have n: "(1::int) \<le> 4" "(4::int) \<le> 4" by simp_all
  have sub: "subscript CpuClasses (4 - 1) = Inr FastModelCortexA76x4"
    by (simp add: subscript_def list_index_def CpuClasses_def)
  have ok: "\<exists>w' s' c. FastmodelCluster_init register_cluster world3 platform0 4 ''2GHz'' ''1.0V'' =
        Inr (w', s', c)"
    by (simp add: FastmodelCluster_init_eq[OF h n(2) sub] register_cluster_def)
  from redistributor_bases[OF h n, of register_cluster world3 "''2GHz''" "''1.0V''"]
  have "reg_base_per_redistributor (realview_gic (system_after
        (FastmodelCluster_init register_cluster world3 platform0 4 ''2GHz'' ''1.0V''))) =
      map (\<lambda>i. (i, 0x2c010000 + (if has_gicv4_1 (realview_gic platform0)
                                   then 0x40000 else 0x20000) * i)) (range 4)"
    by blast
  moreover have "range 4 = [0, 1, 2, 3]"
    by (simp add: range_def upto_rec1)
  ultimately have "reg_base_per_redistributor (realview_gic (system_after
        (FastmodelCluster_init register_cluster world3 platform0 4 ''2GHz'' ''1.0V''))) =
          [(0, 0x2c010000), (1, 0x2c030000), (2, 0x2c050000), (3, 0x2c070000)]"
    by (simp add: platform0_def gic0_def)
  with ok show ?thesis by (intro conjI)
qed

text \<open>
  Claim C8.  Constructing the externally-modeled cluster with more than four cores
  fails in the constructor, whatever the registration does: on a platform whose
  interrupt controller has a redistributor region the assertion \<^verbatim>\<open>num_cpus <= 4\<close>
  raises (on one without, the subscript \<^verbatim>\<open>get_redist_bases()[0]\<close> has raised before).
  When the assertion raises, the cluster object, the four bridges of the interrupt
  controller, their sub-assembly and the two domains exist (eight objects); no core model
  and no bridge of a core model has been constructed, the cluster is not registered with
  the system, and no cluster is returned to the script, which ends with the exception.
\<close>

theorem FastmodelCluster_too_many:
  assumes "4 < n"
  shows "\<exists>w' s'. FastmodelCluster_init reg w system n clk v =
           Inl (if redist_bases (realview_gic system) = [] then IndexError else AssertionError,
                w', s')
         \<and> next_oid w' = next_oid w + (if redist_bases (realview_gic system) = [] then 1 else 8)
         \<and> clusters s' = clusters system \<and> num_cpus s' = num_cpus system"
proof (cases "redist_bases (realview_gic system)")
  case Nil
  then show ?thesis
    by (simp add: FastmodelCluster_init_def new_obj_def setup_gic_fail)
next
  case (Cons b bs)
  with assms show ?thesis
    by (simp add: FastmodelCluster_init_def new_obj_def setup_gic_ok[OF Cons])
qed

theorem FastmodelCluster_too_many_witness:
  "(4::int) < 5 \<and>
   (\<exists>w' s'. FastmodelCluster_init register_cluster world3 platform0 5 ''2GHz'' ''1.0V'' =
       Inl (AssertionError, w', s')
     \<and> next_oid w' = 11 \<and> clusters s' = [] \<and> num_cpus s' = 0)"
  using FastmodelCluster_too_many[where n = 5 and w = world3 and system = platform0
          and clk = "''2GHz''" and v = "''1.0V''" and reg = register_cluster]
  by (simp add: platform0_def gic0_def world3_def)

text \<open>
  With a registration that checks the core count as \<^verbatim>\<open>SimpleSeSystem.addCpuCluster\<close>
  does, a construction with no cores raises in its last statement, after the four-core
  model and all bridges have been built.
\<close>

lemma FastmodelCluster_zero_checked_registration:
  assumes "redist_bases (realview_gic system) = b # bs"
  shows "\<exists>w' s'. FastmodelCluster_init addCpuCluster w system 0 clk v =
           Inl (AssertionError, w', s') \<and> next_oid w' = next_oid w + 15"
  by (simp add: FastmodelCluster_init_eq[OF assms _ subscript_CpuClasses_minus]
        addCpuCluster_def)

text \<open>
  Claim C10.  On a platform whose interrupt controller has a redistributor region, the
  constructor itself does not reject \<^verbatim>\<open>num_cpus = 0\<close>: its check \<^verbatim>\<open>num_cpus <= 4\<close>
  bounds the count from above only, and the lookup \<^verbatim>\<open>CpuClasses[num_cpus - 1]\<close> at
  index \<open>-1\<close> selects the last class, the four-core model, instead of failing.  The
  affinity and redistributor tables are empty, and the four-core model with its four
  cores and two bridges is constructed (fifteen objects in all).  The outcome is then
  what the registration of the system returns: whatever it raises, or the cluster with
  the four-core model.  With the registration as the specification words it the
  construction returns that cluster, registered with a core count of zero.
\<close>

theorem FastmodelCluster_zero:
  assumes "redist_bases (realview_gic system) = b # bs"
  shows "subscript CpuClasses (0 - 1) = Inr FastModelCortexA76x4
     \<and> cores_of FastModelCortexA76x4 = 4
     \<and> (\<exists>w' s2 c cpu.
          (\<forall>reg. FastmodelCluster_init reg w system 0 clk v =
             (case reg \<lparr>clusters = clusters system, num_cpus = num_cpus system\<rparr> (next_oid w) 0 of
                Inl e \<Rightarrow> Inl (e, w', s2)
              | Inr book \<Rightarrow>
                  Inr (w', s2\<lparr>clusters := clusters book, num_cpus := num_cpus book\<rparr>, c)))
        \<and> FastmodelCluster_init register_cluster w system 0 clk v =
             Inr (w', s2\<lparr>clusters := clusters system @ [next_oid w]\<rparr>, c)
        \<and> next_oid w' = next_oid w + 15
        \<and> clusters s2 = clusters system \<and> num_cpus s2 = num_cpus system
        \<and> cpu_affinities (realview_gic s2) = []
        \<and> reg_base_per_redistributor (realview_gic s2) = []
        \<and> fm_cluster_oid c = next_oid w \<and> fm_cpus c = [cpu]
        \<and> fm_cls cpu = FastModelCortexA76x4
        \<and> map core_oid (cores cpu) =
             [next_oid w + 9, next_oid w + 10, next_oid w + 11, next_oid w + 12]
        \<and> list_all (\<lambda>x. \<not> semihosting_enable x \<and> RVBARADDR x = 0x10
                       \<and> redistributor x = Some (gic_oid (realview_gic system))
                       \<and> core_threads_created x \<and> core_interrupt_controller_created x)
                    (cores cpu))"
proof -
  have u: "[0 ..< 4] = [0, 1, 2, Suc 2]"
    by (simp add: upt_conv_Cons)
  define cpu where "cpu = \<lparr>fm_oid = next_oid w + 8, fm_cls = FastModelCortexA76x4,
      GICDISABLE = False,
      cores = map (\<lambda>j. \<lparr>core_oid = next_oid w + 9 + j, semihosting_enable = False,
                   RVBARADDR = 0x10, redistributor = Some (gic_oid (realview_gic system)),
                   core_threads_created = True,
                   core_interrupt_controller_created = True\<rparr>) [0 ..< 4]\<rparr>"
  define c where "c = \<lparr>fm_cluster_oid = next_oid w,
              fm_voltage_domain = \<lparr>vd_oid = next_oid w + 6, voltage = v\<rparr>,
              fm_clk_domain = \<lparr>cd_oid = next_oid w + 7, clock = clk,
                               cd_voltage_domain = next_oid w + 6\<rparr>,
              fm_cpus = [cpu]\<rparr>"
  define W where "W = w\<lparr>next_oid := next_oid w + 15,
               wiring := wiring w @
          [(Port (next_oid w + 1) ''amba'', Port (gic_oid (realview_gic system)) ''amba_m''),
           (Port (next_oid w + 2) ''tlm'', Port (next_oid w + 1) ''tlm''),
           (Port (next_oid w + 2) ''gem5'', Port (iobus system) ''cpu_side_ports''),
           (Port (next_oid w + 3) ''gem5'', Port (membus system) ''mem_side_ports''),
           (Port (next_oid w + 4) ''tlm'', Port (next_oid w + 3) ''tlm''),
           (Port (gic_oid (realview_gic system)) ''amba_s'', Port (next_oid w + 4) ''amba''),
           (Port (next_oid w + 13) ''amba'', Port (next_oid w + 8) ''amba''),
           (Port (next_oid w + 14) ''tlm'', Port (next_oid w + 13) ''tlm''),
           (Port (next_oid w + 14) ''gem5'', Port (membus system) ''cpu_side_ports'')]\<rparr>"
  define S2 where "S2 = system\<lparr>realview_gic := (realview_gic system)
                   \<lparr>cpu_affinities := range 0,
                    reg_base_per_redistributor :=
                      redist_table b (has_gicv4_1 (realview_gic system)) 0\<rparr>,
                 hub := Some \<lparr>hub_oid = next_oid w + 5, children =
                   [(''gic_a2t'', \<lparr>bridge_oid = next_oid w + 1,
                       bridge_cls = ''AmbaToTlmBridge64'', addr_ranges = []\<rparr>),
                    (''gic_t2g'', \<lparr>bridge_oid = next_oid w + 2,
                       bridge_cls = ''TlmToGem5Bridge64'', addr_ranges = []\<rparr>),
                    (''gic_g2t'', \<lparr>bridge_oid = next_oid w + 3,
                       bridge_cls = ''Gem5ToTlmBridge64'',
                       addr_ranges = gic_addr_ranges (realview_gic system)\<rparr>),
                    (''gic_t2a'', \<lparr>bridge_oid = next_oid w + 4,
                       bridge_cls = ''AmbaFromTlmBridge64'', addr_ranges = []\<rparr>),
                    (''a2t'', \<lparr>bridge_oid = next_oid w + 13,
                       bridge_cls = ''AmbaToTlmBridge64'', addr_ranges = []\<rparr>),
                    (''t2g'', \<lparr>bridge_oid = next_oid w + 14,
                       bridge_cls = ''TlmToGem5Bridge64'', addr_ranges = []\<rparr>)]\<rparr>\<rparr>"
  have run: "FastmodelCluster_init reg w system 0 clk v =
             (case reg \<lparr>clusters = clusters system, num_cpus = num_cpus system\<rparr> (next_oid w) 0 of
                Inl e \<Rightarrow> Inl (e, W, S2)
              | Inr book \<Rightarrow>
                  Inr (W, S2\<lparr>clusters := clusters book, num_cpus := num_cpus book\<rparr>, c))" for reg
    by (simp add: FastmodelCluster_init_eq[OF assms _ subscript_CpuClasses_minus]
          W_def S2_def c_def cpu_def split: sum.split)
  have reg: "FastmodelCluster_init register_cluster w system 0 clk v =
             Inr (W, S2\<lparr>clusters := clusters system @ [next_oid w]\<rparr>, c)"
    by (simp add: run register_cluster_def S2_def)
  have st: "next_oid W = next_oid w + 15"
    "clusters S2 = clusters system" "num_cpus S2 = num_cpus system"
    "cpu_affinities (realview_gic S2) = []"
    "reg_base_per_redistributor (realview_gic S2) = []"
    by (simp_all add: W_def S2_def range_def redist_table_def)
  have cl: "fm_cluster_oid c = next_oid w" "fm_cpus c = [cpu]"
        "fm_cls cpu = FastModelCortexA76x4"
        "map core_oid (cores cpu) =
             [next_oid w + 9, next_oid w + 10, next_oid w + 11, next_oid w + 12]"
        "list_all (\<lambda>x. \<not> semihosting_enable x \<and> RVBARADDR x = 0x10
                       \<and> redistributor x = Some (gic_oid (realview_gic system))
                       \<and> core_threads_created x \<and> core_interrupt_controller_created x)
                    (cores cpu)"
    by (simp_all add: c_def cpu_def u)
  have "\<exists>w' s2 c cpu.
          (\<forall>reg. FastmodelCluster_init reg w system 0 clk v =
             (case reg \<lparr>clusters = clusters system, num_cpus = num_cpus system\<rparr> (next_oid w) 0 of
                Inl e \<Rightarrow> Inl (e, w', s2)
              | Inr book \<Rightarrow>
                  Inr (w', s2\<lparr>clusters := clusters book, num_cpus := num_cpus book\<rparr>, c)))
        \<and> FastmodelCluster_init register_cluster w system 0 clk v =
             Inr (w', s2\<lparr>clusters := clusters system @ [next_oid w]\<rparr>, c)
        \<and> next_oid w' = next_oid w + 15
        \<and> clusters s2 = clusters system \<and> num_cpus s2 = num_cpus system
        \<and> cpu_affinities (realview_gic s2) = []
        \<and> reg_base_per_redistributor (realview_gic s2) = []
        \<and> fm_cluster_oid c = next_oid w \<and> fm_cpus c = [cpu]
        \<and> fm_cls cpu = FastModelCortexA76x4
        \<and> map core_oid (cores cpu) =
             [next_oid w + 9, next_oid w + 10, next_oid w + 11, next_oid w + 12]
        \<and> list_all (\<lambda>x. \<not> semihosting_enable x \<and> RVBARADDR x = 0x10
                       \<and> redistributor x = Some (gic_oid (realview_gic system))
                       \<and> core_threads_created x \<and> core_interrupt_controller_created x)
                    (cores cpu)"
    apply (rule exI[of _ W], rule exI[of _ S2], rule exI[of _ c], rule exI[of _ cpu])
    apply (intro conjI allI)
    by (rule run reg st cl)+
  moreover have "cores_of FastModelCortexA76x4 = 4" by simp
  ultimately show ?thesis
    using subscript_CpuClasses_minus by (intro conjI)
qed

theorem FastmodelCluster_zero_witness:
  "redist_bases (realview_gic platform0) = [0x2c010000]
     \<and> (\<exists>w' s' c. FastmodelCluster_init register_cluster world3 platform0 0 ''2GHz'' ''1.0V'' =
             Inr (w', s', c)
           \<and> next_oid w' = 18 \<and> clusters s' = [3] \<and> num_cpus s' = 0
           \<and> map fm_cls (fm_cpus c) = [FastModelCortexA76x4]
           \<and> map (\<lambda>p. map core_oid (cores p)) (fm_cpus c) = [[12, 13, 14, 15]])"
proof -
  have h: "redist_bases (realview_gic platform0) = [0x2c010000]"
    by (simp add: platform0_def gic0_def)
  from FastmodelCluster_zero[OF h, of world3 "''2GHz''" "''1.0V''"]
  obtain w' s2 c cpu where r:
    "FastmodelCluster_init register_cluster world3 platform0 0 ''2GHz'' ''1.0V'' =
       Inr (w', s2\<lparr>clusters := clusters platform0 @ [next_oid world3]\<rparr>, c)"
    "next_oid w' = next_oid world3 + 15" "num_cpus s2 = num_cpus platform0"
    "fm_cpus c = [cpu]" "fm_cls cpu = FastModelCortexA76x4"
    "map core_oid (cores cpu) =
       [next_oid world3 + 9, next_oid world3 + 10, next_oid world3 + 11, next_oid world3 + 12]"
    by (elim exE conjE) (rule that)
  have "\<exists>w' s' c. FastmodelCluster_init register_cluster world3 platform0 0 ''2GHz'' ''1.0V'' =
             Inr (w', s', c)
           \<and> next_oid w' = 18 \<and> clusters s' = [3] \<and> num_cpus s' = 0
           \<and> map fm_cls (fm_cpus c) = [FastModelCortexA76x4]
           \<and> map (\<lambda>p. map core_oid (cores p)) (fm_cpus c) = [[12, 13, 14, 15]]"
    apply (rule exI[of _ w'], rule exI[of _ "s2\<lparr>clusters := clusters platform0 @ [next_oid world3]\<rparr>"],
        rule exI[of _ c])
    using r by (simp add: world3_def platform0_def)
  with h show ?thesis by (intro conjI)
qed

section \<open>Properties of the cache wiring\<close>

lemma connect_fold:
  "fold (\<lambda>c. connectCachedPorts c p) cs w =
     w\<lparr>wiring := wiring w @ map (\<lambda>c. (Port (cpu_oid c) ''cached_ports'', p)) cs\<rparr>"
  by (induction cs arbitrary: w) (simp_all add: connectCachedPorts_def bind_def)

lemma connectMemSide_eq:
  "connectMemSide w self bus =
     w\<lparr>wiring := wiring w @
        (case l2 self of
           Some c \<Rightarrow> [(Port (cache_oid c) ''mem_side'', Port bus ''cpu_side_ports'')]
         | None \<Rightarrow> map (\<lambda>c. (Port (cpu_oid c) ''cached_ports'', Port bus ''cpu_side_ports''))
                     (cpus self))\<rparr>"
  by (simp add: connectMemSide_def connect_fold bind_def split: option.split)

lemma addL2_eq:
  "addL2 w self clk =
     (case l2_type self of
        None \<Rightarrow> (w, self)
      | Some cls \<Rightarrow>
          (w\<lparr>next_oid := next_oid w + 2,
             wiring := wiring w @
               map (\<lambda>c. (Port (cpu_oid c) ''cached_ports'', Port (next_oid w) ''cpu_side_ports''))
                   (cpus self) @
               [(Port (next_oid w) ''mem_side_ports'', Port (next_oid w + 1) ''cpu_side'')]\<rparr>,
           self\<lparr>toL2Bus := Some \<lparr>xbar_oid = next_oid w, width = 64, xbar_clk_domain = clk\<rparr>,
                l2 := Some \<lparr>cache_oid = next_oid w + 1, cache_cls = cls\<rparr>\<rparr>))"
  by (simp add: addL2_def new_obj_def connect_fold bind_def split: option.split)





text \<open>
  Two constructions on a new system: two cores of the \<^verbatim>\<open>timing\<close> type with its three
  cache classes, and four cores of the \<^verbatim>\<open>atomic\<close> type without caches.
\<close>

lemma book_ok_0: "book_ok world0 book0"
  by (simp add: book_ok_def book0_def)

lemma upt_2: "[0 ..< 2] = [0, 1]"
  by (simp add: upt_conv_Cons)

lemma upt_4: "[0 ..< 4] = [0, 1, 2, 3]"
  by (simp add: upt_conv_Cons)

lemma timing_two:
  "CpuClusterRiscV_init world0 book0 2 ''2GHz'' ''1.2V'' timing_config =
     Inr (\<lparr>next_oid = 5, wiring = []\<rparr>, \<lparr>clusters = [0], num_cpus = 2\<rparr>,
          \<lparr>cluster_oid = 0, cpu_type = timing_class ''O3_ARM_v7a_3'', l1i_type = Some ''L1I'',
           l1d_type = Some ''L1D'', l2_type = Some ''L2'',
           voltage_domain = \<lparr>vd_oid = 1, voltage = ''1.2V''\<rparr>,
           clk_domain = \<lparr>cd_oid = 2, clock = ''2GHz'', cd_voltage_domain = 1\<rparr>,
           cpus = map (\<lambda>j. \<lparr>cpu_oid = 3 + j, cpu_cls = timing_class ''O3_ARM_v7a_3'',
                 cpu_id = int j, cpu_clk_domain = 2, threads_created = True,
                 interrupt_controller_created = True, socket_id = Some 0, icache = None,
                 dcache = None, branchPred = None, max_insts_all_threads = None,
                 simpoint_probe = None, workload = None\<rparr>) [0, 1],
           toL2Bus = None, l2 = None\<rparr>)"
  unfolding timing_config_def
  apply (subst CpuClusterRiscV_init_eq[OF book_ok_0])
   apply simp
  apply (simp add: upt_2 world0_def book0_def numCpus_def numCpuClusters_def)
  done

lemma atomic_four:
  "CpuClusterRiscV_init world0 book0 4 ''2GHz'' ''1.2V''
       (atomic_class ''AtomicSimpleCPU'', None, None, None) =
     Inr (\<lparr>next_oid = 7, wiring = []\<rparr>, \<lparr>clusters = [0], num_cpus = 4\<rparr>,
          \<lparr>cluster_oid = 0, cpu_type = atomic_class ''AtomicSimpleCPU'', l1i_type = None,
           l1d_type = None, l2_type = None,
           voltage_domain = \<lparr>vd_oid = 1, voltage = ''1.2V''\<rparr>,
           clk_domain = \<lparr>cd_oid = 2, clock = ''2GHz'', cd_voltage_domain = 1\<rparr>,
           cpus = map (\<lambda>j. \<lparr>cpu_oid = 3 + j, cpu_cls = atomic_class ''AtomicSimpleCPU'',
                 cpu_id = int j, cpu_clk_domain = 2, threads_created = True,
                 interrupt_controller_created = True, socket_id = Some 0, icache = None,
                 dcache = None, branchPred = None, max_insts_all_threads = None,
                 simpoint_probe = None, workload = None\<rparr>) [0, 1, 2, 3],
           toL2Bus = None, l2 = None\<rparr>)"
  apply (subst CpuClusterRiscV_init_eq[OF book_ok_0])
   apply simp
  apply (simp add: upt_4 world0_def book0_def numCpus_def numCpuClusters_def)
  done

text \<open>
  Claim C2.  \<^verbatim>\<open>connectMemSide(bus)\<close> makes exactly one connection when the cluster has
  an L2, that of the L2's port \<^verbatim>\<open>mem_side\<close> to the bus, and exactly one connection per
  core, in the order of the cores, when it has none: each core's cached port to the bus.
  Nothing else is wired and no object is constructed.  A cluster has an L2 when its
  attribute \<^verbatim>\<open>l2\<close> is set, which \<^verbatim>\<open>addL2\<close> does for a configured L2 class.  The
  witnesses are the two-core \<^verbatim>\<open>timing\<close> cluster after \<^verbatim>\<open>addL2\<close> (one connection, of
  the L2) and the four-core \<^verbatim>\<open>atomic\<close> cluster (four connections, of the cores).
\<close>

theorem connectMemSide_ports:
  "(\<forall>c. l2 self = Some c \<longrightarrow>
      connectMemSide w self bus =
        w\<lparr>wiring := wiring w @ [(Port (cache_oid c) ''mem_side'', Port bus ''cpu_side_ports'')]\<rparr>)
   \<and> (l2 self = None \<longrightarrow>
      connectMemSide w self bus =
        w\<lparr>wiring := wiring w @
           map (\<lambda>c. (Port (cpu_oid c) ''cached_ports'', Port bus ''cpu_side_ports''))
               (cpus self)\<rparr>)
   \<and> length (wiring (connectMemSide w self bus)) =
       length (wiring w) + (case l2 self of Some c \<Rightarrow> 1 | None \<Rightarrow> length (cpus self))
   \<and> next_oid (connectMemSide w self bus) = next_oid w"
  by (simp add: connectMemSide_eq split: option.split)

theorem connectMemSide_ports_witness:
  "(\<exists>w1 s1 c1 w2 c2.
      CpuClusterRiscV_init world0 book0 2 ''2GHz'' ''1.2V'' timing_config = Inr (w1, s1, c1)
      \<and> addL2 w1 c1 (cd_oid (clk_domain c1)) = (w2, c2)
      \<and> l2 c2 = Some \<lparr>cache_oid = 6, cache_cls = ''L2''\<rparr>
      \<and> connectMemSide w2 c2 100 =
           w2\<lparr>wiring := wiring w2 @ [(Port 6 ''mem_side'', Port 100 ''cpu_side_ports'')]\<rparr>)
   \<and> (\<exists>w1 s1 c1.
      CpuClusterRiscV_init world0 book0 4 ''2GHz'' ''1.2V''
         (atomic_class ''AtomicSimpleCPU'', None, None, None) = Inr (w1, s1, c1)
      \<and> l2 c1 = None
      \<and> wiring (connectMemSide w1 c1 100) =
           [(Port 3 ''cached_ports'', Port 100 ''cpu_side_ports''),
            (Port 4 ''cached_ports'', Port 100 ''cpu_side_ports''),
            (Port 5 ''cached_ports'', Port 100 ''cpu_side_ports''),
            (Port 6 ''cached_ports'', Port 100 ''cpu_side_ports'')])"
proof (intro conjI)
  define r where "r = projr (CpuClusterRiscV_init world0 book0 2 ''2GHz'' ''1.2V'' timing_config)"
  define w1 where "w1 = fst r"
  define s1 where "s1 = fst (snd r)"
  define c1 where "c1 = snd (snd r)"
  define w2 where "w2 = fst (addL2 w1 c1 (cd_oid (clk_domain c1)))"
  define c2 where "c2 = snd (addL2 w1 c1 (cd_oid (clk_domain c1)))"
  have e1: "CpuClusterRiscV_init world0 book0 2 ''2GHz'' ''1.2V'' timing_config = Inr (w1, s1, c1)"
    by (simp add: w1_def s1_def c1_def r_def timing_two)
  have e2: "addL2 w1 c1 (cd_oid (clk_domain c1)) = (w2, c2)"
    by (simp add: w2_def c2_def)
  have l: "l2 c2 = Some \<lparr>cache_oid = 6, cache_cls = ''L2''\<rparr>"
    by (simp add: c2_def addL2_eq w1_def c1_def r_def timing_two)
  from connectMemSide_ports[of c2 w2 100] l
  have "connectMemSide w2 c2 100 =
           w2\<lparr>wiring := wiring w2 @ [(Port 6 ''mem_side'', Port 100 ''cpu_side_ports'')]\<rparr>"
    by simp
  with e1 e2 l show "\<exists>w1 s1 c1 w2 c2.
      CpuClusterRiscV_init world0 book0 2 ''2GHz'' ''1.2V'' timing_config = Inr (w1, s1, c1)
      \<and> addL2 w1 c1 (cd_oid (clk_domain c1)) = (w2, c2)
      \<and> l2 c2 = Some \<lparr>cache_oid = 6, cache_cls = ''L2''\<rparr>
      \<and> connectMemSide w2 c2 100 =
           w2\<lparr>wiring := wiring w2 @ [(Port 6 ''mem_side'', Port 100 ''cpu_side_ports'')]\<rparr>"
    by blast
next
  define r where "r = projr (CpuClusterRiscV_init world0 book0 4 ''2GHz'' ''1.2V''
         (atomic_class ''AtomicSimpleCPU'', None, None, None))"
  define w1 where "w1 = fst r"
  define s1 where "s1 = fst (snd r)"
  define c1 where "c1 = snd (snd r)"
  have e1: "CpuClusterRiscV_init world0 book0 4 ''2GHz'' ''1.2V''
         (atomic_class ''AtomicSimpleCPU'', None, None, None) = Inr (w1, s1, c1)"
    by (simp add: w1_def s1_def c1_def r_def atomic_four)
  have l: "l2 c1 = None"
    by (simp add: c1_def r_def atomic_four)
  from connectMemSide_ports[of c1 w1 100] l
  have "connectMemSide w1 c1 100 =
        w1\<lparr>wiring := wiring w1 @
           map (\<lambda>c. (Port (cpu_oid c) ''cached_ports'', Port 100 ''cpu_side_ports''))
               (cpus c1)\<rparr>"
    by simp
  then have "wiring (connectMemSide w1 c1 100) =
           [(Port 3 ''cached_ports'', Port 100 ''cpu_side_ports''),
            (Port 4 ''cached_ports'', Port 100 ''cpu_side_ports''),
            (Port 5 ''cached_ports'', Port 100 ''cpu_side_ports''),
            (Port 6 ''cached_ports'', Port 100 ''cpu_side_ports'')]"
    by (simp add: w1_def c1_def r_def atomic_four)
  with e1 l show "\<exists>w1 s1 c1.
      CpuClusterRiscV_init world0 book0 4 ''2GHz'' ''1.2V''
         (atomic_class ''AtomicSimpleCPU'', None, None, None) = Inr (w1, s1, c1)
      \<and> l2 c1 = None
      \<and> wiring (connectMemSide w1 c1 100) =
           [(Port 3 ''cached_ports'', Port 100 ''cpu_side_ports''),
            (Port 4 ''cached_ports'', Port 100 ''cpu_side_ports''),
            (Port 5 ''cached_ports'', Port 100 ''cpu_side_ports''),
            (Port 6 ''cached_ports'', Port 100 ''cpu_side_ports'')]"
    by blast
qed

text \<open>
  Claim C5.  With no L2 class configured \<^verbatim>\<open>addL2(clk_domain)\<close> returns the world and
  the cluster as they are.  With an L2 class configured it constructs two objects, one
  crossbar (of width 64, in the given clock domain) and one L2 instance of that class
  for the whole cluster; it connects the cached port of every core, in the order of the
  cores, to the crossbar's \<^verbatim>\<open>cpu_side_ports\<close>, and then the crossbar's
  \<^verbatim>\<open>mem_side_ports\<close> to the L2's port \<^verbatim>\<open>cpu_side\<close>, the port of the cache that faces
  the cores; the cluster keeps the crossbar as \<^verbatim>\<open>toL2Bus\<close> and the cache as \<^verbatim>\<open>l2\<close>,
  and nothing else of it changes.
\<close>

theorem addL2_shared:
  "(l2_type self = None \<longrightarrow> addL2 w self clk = (w, self))
   \<and> (\<forall>cls. l2_type self = Some cls \<longrightarrow>
        addL2 w self clk =
          (w\<lparr>next_oid := next_oid w + 2,
             wiring := wiring w @
               map (\<lambda>c. (Port (cpu_oid c) ''cached_ports'', Port (next_oid w) ''cpu_side_ports''))
                   (cpus self) @
               [(Port (next_oid w) ''mem_side_ports'', Port (next_oid w + 1) ''cpu_side'')]\<rparr>,
           self\<lparr>toL2Bus := Some \<lparr>xbar_oid = next_oid w, width = 64, xbar_clk_domain = clk\<rparr>,
                l2 := Some \<lparr>cache_oid = next_oid w + 1, cache_cls = cls\<rparr>\<rparr>))"
  by (simp add: addL2_eq)

theorem addL2_shared_witness:
  "(\<exists>w1 s1 c1.
      CpuClusterRiscV_init world0 book0 4 ''2GHz'' ''1.2V''
         (atomic_class ''AtomicSimpleCPU'', None, None, None) = Inr (w1, s1, c1)
      \<and> l2_type c1 = None
      \<and> addL2 w1 c1 (cd_oid (clk_domain c1)) = (w1, c1))
   \<and> (\<exists>w1 s1 c1 w2 c2.
      CpuClusterRiscV_init world0 book0 2 ''2GHz'' ''1.2V'' timing_config = Inr (w1, s1, c1)
      \<and> l2_type c1 = Some ''L2''
      \<and> addL2 w1 c1 (cd_oid (clk_domain c1)) = (w2, c2)
      \<and> next_oid w1 = 5 \<and> next_oid w2 = 7
      \<and> wiring w2 = [(Port 3 ''cached_ports'', Port 5 ''cpu_side_ports''),
                      (Port 4 ''cached_ports'', Port 5 ''cpu_side_ports''),
                      (Port 5 ''mem_side_ports'', Port 6 ''cpu_side'')]
      \<and> toL2Bus c2 = Some \<lparr>xbar_oid = 5, width = 64, xbar_clk_domain = 2\<rparr>
      \<and> l2 c2 = Some \<lparr>cache_oid = 6, cache_cls = ''L2''\<rparr>
      \<and> cpus c2 = cpus c1)"
proof (intro conjI)
  define r where "r = projr (CpuClusterRiscV_init world0 book0 4 ''2GHz'' ''1.2V''
         (atomic_class ''AtomicSimpleCPU'', None, None, None))"
  define w1 where "w1 = fst r"
  define s1 where "s1 = fst (snd r)"
  define c1 where "c1 = snd (snd r)"
  have e1: "CpuClusterRiscV_init world0 book0 4 ''2GHz'' ''1.2V''
         (atomic_class ''AtomicSimpleCPU'', None, None, None) = Inr (w1, s1, c1)"
    by (simp add: w1_def s1_def c1_def r_def atomic_four)
  have l: "l2_type c1 = None"
    by (simp add: c1_def r_def atomic_four)
  from addL2_shared[of c1 w1 "cd_oid (clk_domain c1)"] l
  have "addL2 w1 c1 (cd_oid (clk_domain c1)) = (w1, c1)"
    by simp
  with e1 l show "\<exists>w1 s1 c1.
      CpuClusterRiscV_init world0 book0 4 ''2GHz'' ''1.2V''
         (atomic_class ''AtomicSimpleCPU'', None, None, None) = Inr (w1, s1, c1)
      \<and> l2_type c1 = None
      \<and> addL2 w1 c1 (cd_oid (clk_domain c1)) = (w1, c1)"
    by blast
next
  define r where "r = projr (CpuClusterRiscV_init world0 book0 2 ''2GHz'' ''1.2V'' timing_config)"
  define w1 where "w1 = fst r"
  define s1 where "s1 = fst (snd r)"
  define c1 where "c1 = snd (snd r)"
  define w2 where "w2 = fst (addL2 w1 c1 (cd_oid (clk_domain c1)))"
  define c2 where "c2 = snd (addL2 w1 c1 (cd_oid (clk_domain c1)))"
  have e1: "CpuClusterRiscV_init world0 book0 2 ''2GHz'' ''1.2V'' timing_config = Inr (w1, s1, c1)"
    by (simp add: w1_def s1_def c1_def r_def timing_two)
  have e2: "addL2 w1 c1 (cd_oid (clk_domain c1)) = (w2, c2)"
    by (simp add: w2_def c2_def)
  have l: "l2_type c1 = Some ''L2''" and n1: "next_oid w1 = 5"
    by (simp_all add: c1_def w1_def r_def timing_two)
  from addL2_shared[of c1 w1 "cd_oid (clk_domain c1)"] l e2
  have v: "(w2, c2) =
          (w1\<lparr>next_oid := next_oid w1 + 2,
             wiring := wiring w1 @
               map (\<lambda>c. (Port (cpu_oid c) ''cached_ports'', Port (next_oid w1) ''cpu_side_ports''))
                   (cpus c1) @
               [(Port (next_oid w1) ''mem_side_ports'', Port (next_oid w1 + 1) ''cpu_side'')]\<rparr>,
           c1\<lparr>toL2Bus := Some \<lparr>xbar_oid = next_oid w1, width = 64,
                                 xbar_clk_domain = cd_oid (clk_domain c1)\<rparr>,
                l2 := Some \<lparr>cache_oid = next_oid w1 + 1, cache_cls = ''L2''\<rparr>\<rparr>)"
    by simp
  then have f: "next_oid w2 = 7"
      "wiring w2 = [(Port 3 ''cached_ports'', Port 5 ''cpu_side_ports''),
                      (Port 4 ''cached_ports'', Port 5 ''cpu_side_ports''),
                      (Port 5 ''mem_side_ports'', Port 6 ''cpu_side'')]"
      "toL2Bus c2 = Some \<lparr>xbar_oid = 5, width = 64, xbar_clk_domain = 2\<rparr>"
      "l2 c2 = Some \<lparr>cache_oid = 6, cache_cls = ''L2''\<rparr>"
      "cpus c2 = cpus c1"
    by (simp_all add: c1_def w1_def r_def timing_two)
  with e1 e2 l n1 show "\<exists>w1 s1 c1 w2 c2.
      CpuClusterRiscV_init world0 book0 2 ''2GHz'' ''1.2V'' timing_config = Inr (w1, s1, c1)
      \<and> l2_type c1 = Some ''L2''
      \<and> addL2 w1 c1 (cd_oid (clk_domain c1)) = (w2, c2)
      \<and> next_oid w1 = 5 \<and> next_oid w2 = 7
      \<and> wiring w2 = [(Port 3 ''cached_ports'', Port 5 ''cpu_side_ports''),
                      (Port 4 ''cached_ports'', Port 5 ''cpu_side_ports''),
                      (Port 5 ''mem_side_ports'', Port 6 ''cpu_side'')]
      \<and> toL2Bus c2 = Some \<lparr>xbar_oid = 5, width = 64, xbar_clk_domain = 2\<rparr>
      \<and> l2 c2 = Some \<lparr>cache_oid = 6, cache_cls = ''L2''\<rparr>
      \<and> cpus c2 = cpus c1"
    by (intro exI[of _ w1] exI[of _ s1] exI[of _ c1] exI[of _ w2] exI[of _ c2] conjI)
qed



end
